theory Spec2Isabelle
  imports Complex_Main "HOL-Library.Multiset"
begin

section \<open>JavaScript numbers and the built-in parsers\<close>

text \<open>
  A JavaScript \<open>number\<close> is modelled as \<open>NaN\<close> or an exact rational. Every quantity the
  tracker handles is a millisecond timestamp, a counter, or a header value, all far below
  \<open>2^53\<close>, where the arithmetic of doubles on integers is exact; rounding of fractions,
  the infinities and the sign of zero are not modelled. \<open>undefined\<close> converts to \<open>NaN\<close>
  in every numeric context the source has (\<open>>\<close>, \<open><=\<close>, \<open>*\<close>, \<open>+\<close>, \<open>Math.ceil\<close>),
  so an optional field is read through \<open>num\<close>.
\<close>

datatype number = NaN | Num rat

fun num :: "number option \<Rightarrow> number" where
  "num None = NaN"
| "num (Some x) = x"

fun js_add :: "number \<Rightarrow> number \<Rightarrow> number" where
  "js_add (Num a) (Num b) = Num (a + b)"
| "js_add _ _ = NaN"

fun js_sub :: "number \<Rightarrow> number \<Rightarrow> number" where
  "js_sub (Num a) (Num b) = Num (a - b)"
| "js_sub _ _ = NaN"

fun js_mul :: "number \<Rightarrow> number \<Rightarrow> number" where
  "js_mul (Num a) (Num b) = Num (a * b)"
| "js_mul _ _ = NaN"

text \<open>Every divisor in the source is a non-zero literal (4, 60, 1000, 3600); a zero
  divisor, which gives an infinity in JavaScript, does not occur.\<close>

fun js_div :: "number \<Rightarrow> number \<Rightarrow> number" where
  "js_div (Num a) (Num b) = (if b = 0 then NaN else Num (a / b))"
| "js_div _ _ = NaN"

text \<open>\<open>a % b\<close>: the remainder has the sign of the dividend.\<close>

fun js_mod :: "number \<Rightarrow> number \<Rightarrow> number" where
  "js_mod (Num a) (Num b) =
     (if b = 0 then NaN
      else Num (a - b * of_int (if 0 \<le> a / b then \<lfloor>a / b\<rfloor> else \<lceil>a / b\<rceil>)))"
| "js_mod _ _ = NaN"

fun js_lt :: "number \<Rightarrow> number \<Rightarrow> bool" where
  "js_lt (Num a) (Num b) = (a < b)"
| "js_lt _ _ = False"

fun js_le :: "number \<Rightarrow> number \<Rightarrow> bool" where
  "js_le (Num a) (Num b) = (a \<le> b)"
| "js_le _ _ = False"

definition js_gt :: "number \<Rightarrow> number \<Rightarrow> bool" where
  "js_gt a b = js_lt b a"

fun js_ceil :: "number \<Rightarrow> number" where
  "js_ceil (Num a) = Num (of_int \<lceil>a\<rceil>)"
| "js_ceil NaN = NaN"

fun js_floor :: "number \<Rightarrow> number" where
  "js_floor (Num a) = Num (of_int \<lfloor>a\<rfloor>)"
| "js_floor NaN = NaN"

text \<open>Truthiness of a number (\<open>0\<close> and \<open>NaN\<close> are falsy) and of a string or \<open>null\<close>
  (\<open>null\<close> and the empty string are falsy).\<close>

fun truthy :: "number \<Rightarrow> bool" where
  "truthy (Num a) = (a \<noteq> 0)"
| "truthy NaN = False"

fun truthy_str :: "string option \<Rightarrow> bool" where
  "truthy_str None = False"
| "truthy_str (Some s) = (s \<noteq> [])"

abbreviation of_now :: "int \<Rightarrow> number" where
  "of_now t \<equiv> Num (of_int t)"

subsection \<open>\<open>parseInt(s, 10)\<close> and \<open>parseFloat(s)\<close>\<close>

text \<open>
  Characters are Latin-1 code units (a header value is a byte string). White space is
  TAB, LF, VT, FF, CR, SP and NBSP. \<open>parseFloat\<close> reads the longest prefix that is a
  decimal literal; the literal \<open>Infinity\<close> has no value in this model of numbers and is
  read as any other text without digits.
\<close>

definition isDigit :: "char \<Rightarrow> bool" where
  "isDigit c = (48 \<le> (of_char c :: int) \<and> (of_char c :: int) \<le> 57)"

definition isSpace :: "char \<Rightarrow> bool" where
  "isSpace c = ((of_char c :: int) \<in> {9, 10, 11, 12, 13, 32, 160})"

definition digitsVal :: "string \<Rightarrow> int" where
  "digitsVal ds = foldl (\<lambda>acc c. 10 * acc + (of_char c - 48)) 0 ds"

definition takeSign :: "string \<Rightarrow> rat \<times> string" where
  "takeSign s =
     (case s of
        [] \<Rightarrow> (1, [])
      | c # cs \<Rightarrow> if c = CHR ''-'' then (-1, cs) else if c = CHR ''+'' then (1, cs) else (1, s))"

definition parseInt :: "string \<Rightarrow> number" where
  "parseInt s =
     (let (sign, t) = takeSign (dropWhile isSpace s);
          z = takeWhile isDigit t
      in if z = [] then NaN else Num (sign * of_int (digitsVal z)))"

definition exponentPart :: "string \<Rightarrow> int" where
  "exponentPart s =
     (case s of
        [] \<Rightarrow> 0
      | c # cs \<Rightarrow>
          if c = CHR ''e'' \<or> c = CHR ''E'' then
            (let (sign, t) = takeSign cs; ds = takeWhile isDigit t
             in if ds = [] then 0
                else if sign < 0 then - digitsVal ds else digitsVal ds)
          else 0)"

definition parseFloat :: "string \<Rightarrow> number" where
  "parseFloat s =
     (let (sign, t) = takeSign (dropWhile isSpace s);
          ip = takeWhile isDigit t;
          r = dropWhile isDigit t;
          dot = (r \<noteq> [] \<and> hd r = CHR ''.'');
          fp = (if dot then takeWhile isDigit (tl r) else []);
          rest = (if dot then dropWhile isDigit (tl r) else r);
          rest' = (if ip = [] \<and> fp = [] then [] else rest);
          e = exponentPart rest';
          m = of_int (digitsVal ip) + of_int (digitsVal fp) / 10 ^ length fp
      in if ip = [] \<and> fp = [] then NaN
         else Num (sign * m * (if 0 \<le> e then 10 ^ nat e else 1 / 10 ^ nat (- e))))"


subsection \<open>Template literals\<close>

text \<open>
  A template literal is kept as the list of its pieces, a number left as the number it
  interpolates: \<open>`Token limit (TPM): Reset in ${waitSec}s`\<close> is
  \<open>[Str ''Token limit (TPM): Reset in '', N waitSec, Str ''s'']\<close>.
\<close>

datatype piece = Str string | N number

type_synonym template = "piece list"

section \<open>Types (\<open>types.ts\<close>)\<close>

datatype ProviderName = groq | cerebras

fun providerText :: "ProviderName \<Rightarrow> string" where
  "providerText groq = ''groq''"
| "providerText cerebras = ''cerebras''"

text \<open>\<open>GroqRateLimits | CerebrasRateLimits\<close>: the per-hour limits exist for Cerebras only.
  The tracker reads \<open>requestsPerDay\<close> and \<open>tokensPerMinute\<close>, which both shapes have.\<close>

record RateLimits =
  requestsPerMinute :: number
  requestsPerHour :: "number option"
  requestsPerDay :: number
  tokensPerMinute :: number
  tokensPerHour :: "number option"
  tokensPerDay :: number

text \<open>\<open>ModelConfig\<close>; the optional \<open>defaults\<close> (generation parameters) are read by the
  provider adapters only and are left out.\<close>

record ModelConfig =
  model_id :: string
  model_name :: string
  model_provider :: ProviderName
  limits :: RateLimits
  enabled :: bool

text \<open>
  \<open>RateLimitState = GroqRateLimitState | CerebrasRateLimitState\<close> is an untagged union
  that the tracker casts by the provider of the model at hand. The record is the object
  as it is at run time: the four counters and \<open>lastUpdated\<close> are in both shapes, a field
  the object does not have is \<open>None\<close> (\<open>undefined\<close>). \<open>retryAfter\<close> is optional in the
  Groq shape itself.
\<close>

record RateLimitState =
  remainingRequestsDay :: number
  remainingTokensMinute :: number
  limitRequestsDay :: number
  limitTokensMinute :: number
  resetRequestsAt :: "number option"
  resetTokensAt :: "number option"
  retryAfter :: "number option"
  resetRequestsDaySeconds :: "number option"
  resetTokensMinuteSeconds :: "number option"
  lastUpdated :: number

record UsageStats =
  provider :: ProviderName
  rateLimitState :: RateLimitState
  requestsToday :: number
  tokensToday :: number
  dayStart :: int

record UsageRecord =
  modelId :: string
  record_provider :: ProviderName
  timestamp :: int
  inputTokens :: number
  outputTokens :: number

text \<open>\<open>Headers\<close>: \<open>headers.get(name)\<close> is the value or \<open>null\<close>.\<close>

type_synonym Headers = "string \<Rightarrow> string option"

text \<open>One reading of the clock: \<open>Date.now()\<close> and the local midnight before it,
  \<open>new Date().setHours(0, 0, 0, 0)\<close>. A call reads the clock once.\<close>

record clock =
  now :: int
  today :: int

section \<open>Usage tracker (\<open>core/usage-tracker.ts\<close>)\<close>

record UsageTracker =
  stats :: "string \<rightharpoonup> UsageStats"
  history :: "UsageRecord list"

definition maxHistorySize :: nat where
  "maxHistorySize = 10000"

definition new_UsageTracker :: UsageTracker where
  "new_UsageTracker = \<lparr>stats = Map.empty, history = []\<rparr>"

definition createGroqState :: "RateLimits \<Rightarrow> RateLimitState" where
  "createGroqState l =
     \<lparr>remainingRequestsDay = requestsPerDay l,
      remainingTokensMinute = tokensPerMinute l,
      limitRequestsDay = requestsPerDay l,
      limitTokensMinute = tokensPerMinute l,
      resetRequestsAt = Some (Num 0),
      resetTokensAt = Some (Num 0),
      retryAfter = None,
      resetRequestsDaySeconds = None,
      resetTokensMinuteSeconds = None,
      lastUpdated = Num 0\<rparr>"

definition createCerebrasState :: "RateLimits \<Rightarrow> RateLimitState" where
  "createCerebrasState l =
     \<lparr>remainingRequestsDay = requestsPerDay l,
      remainingTokensMinute = tokensPerMinute l,
      limitRequestsDay = requestsPerDay l,
      limitTokensMinute = tokensPerMinute l,
      resetRequestsAt = None,
      resetTokensAt = None,
      retryAfter = None,
      resetRequestsDaySeconds = Some (Num 0),
      resetTokensMinuteSeconds = Some (Num 0),
      lastUpdated = Num 0\<rparr>"

text \<open>The entry \<open>getStats\<close> makes for a model that has none.\<close>

definition newStats :: "ModelConfig \<Rightarrow> clock \<Rightarrow> UsageStats" where
  "newStats model clk =
     \<lparr>provider = model_provider model,
      rateLimitState =
        (if model_provider model = groq then createGroqState (limits model)
         else createCerebrasState (limits model)),
      requestsToday = Num 0,
      tokensToday = Num 0,
      dayStart = today clk\<rparr>"

text \<open>Get or create the usage stats of a model; the daily counters start again when
  the day has changed. The entry is an object shared with the map, so the map holds
  what is returned.\<close>

definition getStats :: "UsageTracker \<Rightarrow> ModelConfig \<Rightarrow> clock \<Rightarrow> UsageStats \<times> UsageTracker" where
  "getStats tr model clk =
     (let st = (case stats tr (model_id model) of
                  None \<Rightarrow> newStats model clk
                | Some st \<Rightarrow> st);
          st' = (if dayStart st \<noteq> today clk
                 then st\<lparr>requestsToday := Num 0, tokensToday := Num 0, dayStart := today clk\<rparr>
                 else st)
      in (st', tr\<lparr>stats := (stats tr)(model_id model \<mapsto> st')\<rparr>))"

subsection \<open>Reconciliation from response headers\<close>

text \<open>
  \<open>parseGroqDuration\<close> runs the global regular expression
  \<open>/(\d+(?:\.\d+)?)([hms])/g\<close> over the text. At one position the expression can match
  in one way only: the longest run of digits, then a dot with its longest run of digits
  if there is one, then the unit. \<open>matchDuration\<close> is that match at the head of the
  text: the number read, the unit and the length matched.
\<close>

definition isUnit :: "char \<Rightarrow> bool" where
  "isUnit c = (c = CHR ''h'' \<or> c = CHR ''m'' \<or> c = CHR ''s'')"

definition matchDuration :: "string \<Rightarrow> (number \<times> char \<times> nat) option" where
  "matchDuration s =
     (let ip = takeWhile isDigit s; r = dropWhile isDigit s
      in if ip = [] then None
         else (case r of
                 [] \<Rightarrow> None
               | c # r2 \<Rightarrow>
                   if c = CHR ''.'' then
                     (let fp = takeWhile isDigit r2; r3 = dropWhile isDigit r2
                      in if fp = [] then None
                         else (case r3 of
                                 [] \<Rightarrow> None
                               | u # _ \<Rightarrow>
                                   if isUnit u
                                   then Some (parseFloat (ip @ CHR ''.'' # fp), u,
                                              length ip + 1 + length fp + 1)
                                   else None))
                   else if isUnit c then Some (parseFloat ip, c, length ip + 1)
                   else None))"

definition unitMs :: "char \<Rightarrow> number \<Rightarrow> number" where
  "unitMs u v =
     (if u = CHR ''h'' then js_mul (js_mul v (Num 3600)) (Num 1000)
      else if u = CHR ''m'' then js_mul (js_mul v (Num 60)) (Num 1000)
      else js_mul v (Num 1000))"

text \<open>The loop over the matches; the first argument counts the characters of the last
  match that are still to be passed over (the expression resumes at \<open>lastIndex\<close>).\<close>

fun durationLoop :: "nat \<Rightarrow> string \<Rightarrow> number \<Rightarrow> number" where
  "durationLoop _ [] ms = ms"
| "durationLoop (Suc k) (c # cs) ms = durationLoop k cs ms"
| "durationLoop 0 (c # cs) ms =
     (case matchDuration (c # cs) of
        None \<Rightarrow> durationLoop 0 cs ms
      | Some (v, u, n) \<Rightarrow> durationLoop (n - 1) cs (js_add ms (unitMs u v)))"

definition parseGroqDuration :: "string \<Rightarrow> number" where
  "parseGroqDuration duration = durationLoop 0 duration (Num 0)"

definition updateFromGroqHeaders :: "RateLimitState \<Rightarrow> Headers \<Rightarrow> int \<Rightarrow> RateLimitState" where
  "updateFromGroqHeaders state headers t =
     (let remReq = headers ''x-ratelimit-remaining-requests'';
          remTok = headers ''x-ratelimit-remaining-tokens'';
          limitReq = headers ''x-ratelimit-limit-requests'';
          limitTok = headers ''x-ratelimit-limit-tokens'';
          resetReqStr = headers ''x-ratelimit-reset-requests'';
          resetTokStr = headers ''x-ratelimit-reset-tokens'';
          retryAfterStr = headers ''retry-after'';
          s1 = (if truthy_str remReq then state\<lparr>remainingRequestsDay := parseInt (the remReq)\<rparr> else state);
          s2 = (if truthy_str remTok then s1\<lparr>remainingTokensMinute := parseInt (the remTok)\<rparr> else s1);
          s3 = (if truthy_str limitReq then s2\<lparr>limitRequestsDay := parseInt (the limitReq)\<rparr> else s2);
          s4 = (if truthy_str limitTok then s3\<lparr>limitTokensMinute := parseInt (the limitTok)\<rparr> else s3);
          s5 = (if truthy_str resetReqStr
                then s4\<lparr>resetRequestsAt := Some (js_add (of_now t) (parseGroqDuration (the resetReqStr)))\<rparr>
                else s4);
          s6 = (if truthy_str resetTokStr
                then s5\<lparr>resetTokensAt := Some (js_add (of_now t) (parseGroqDuration (the resetTokStr)))\<rparr>
                else s5);
          s7 = (if truthy_str retryAfterStr then s6\<lparr>retryAfter := Some (parseInt (the retryAfterStr))\<rparr> else s6)
      in s7\<lparr>lastUpdated := of_now t\<rparr>)"

definition updateFromCerebrasHeaders :: "RateLimitState \<Rightarrow> Headers \<Rightarrow> int \<Rightarrow> RateLimitState" where
  "updateFromCerebrasHeaders state headers t =
     (let remReq = headers ''x-ratelimit-remaining-requests-day'';
          remTok = headers ''x-ratelimit-remaining-tokens-minute'';
          limitReq = headers ''x-ratelimit-limit-requests-day'';
          limitTok = headers ''x-ratelimit-limit-tokens-minute'';
          resetReq = headers ''x-ratelimit-reset-requests-day'';
          resetTok = headers ''x-ratelimit-reset-tokens-minute'';
          s1 = (if truthy_str remReq then state\<lparr>remainingRequestsDay := parseInt (the remReq)\<rparr> else state);
          s2 = (if truthy_str remTok then s1\<lparr>remainingTokensMinute := parseInt (the remTok)\<rparr> else s1);
          s3 = (if truthy_str limitReq then s2\<lparr>limitRequestsDay := parseInt (the limitReq)\<rparr> else s2);
          s4 = (if truthy_str limitTok then s3\<lparr>limitTokensMinute := parseInt (the limitTok)\<rparr> else s3);
          s5 = (if truthy_str resetReq then s4\<lparr>resetRequestsDaySeconds := Some (parseFloat (the resetReq))\<rparr> else s4);
          s6 = (if truthy_str resetTok then s5\<lparr>resetTokensMinuteSeconds := Some (parseFloat (the resetTok))\<rparr> else s5)
      in s6\<lparr>lastUpdated := of_now t\<rparr>)"

text \<open>The public method: nothing happens for a model that has no entry. The state is
  updated in place, inside the entry of the map.\<close>

definition updateFromHeaders :: "UsageTracker \<Rightarrow> string \<Rightarrow> ProviderName \<Rightarrow> Headers \<Rightarrow> int \<Rightarrow> UsageTracker" where
  "updateFromHeaders tr mid prov headers t =
     (case stats tr mid of
        None \<Rightarrow> tr
      | Some st \<Rightarrow>
          (case prov of
             groq \<Rightarrow>
               tr\<lparr>stats := (stats tr)(mid \<mapsto>
                    st\<lparr>rateLimitState := updateFromGroqHeaders (rateLimitState st) headers t\<rparr>)\<rparr>
           | cerebras \<Rightarrow>
               tr\<lparr>stats := (stats tr)(mid \<mapsto>
                    st\<lparr>rateLimitState := updateFromCerebrasHeaders (rateLimitState st) headers t\<rparr>)\<rparr>))"


subsection \<open>The admission check\<close>

record check_result =
  allowed :: bool
  reason :: "template option"
  check_stats :: UsageStats

definition formatDuration :: "number \<Rightarrow> template" where
  "formatDuration seconds =
     (if js_lt seconds (Num 60) then [N seconds, Str ''s'']
      else if js_lt seconds (Num 3600)
      then [N (js_floor (js_div seconds (Num 60))), Str ''m '', N (js_mod seconds (Num 60)), Str ''s'']
      else (let hours = js_floor (js_div seconds (Num 3600));
                mins = js_floor (js_div (js_mod seconds (Num 3600)) (Num 60))
            in [N hours, Str ''h '', N mins, Str ''m'']))"

definition canRequestGroq :: "UsageStats \<Rightarrow> number \<Rightarrow> int \<Rightarrow> check_result" where
  "canRequestGroq st estimatedTokens t =
     (let state = rateLimitState st
      in if truthy (num (retryAfter state)) \<and>
            js_gt (js_add (lastUpdated state) (js_mul (num (retryAfter state)) (Num 1000))) (of_now t)
         then
           (let waitSec = js_ceil (js_sub (num (retryAfter state))
                                     (js_div (js_sub (of_now t) (lastUpdated state)) (Num 1000)))
            in \<lparr>allowed = False,
                reason = Some [Str ''Rate limited: Retry after '', N waitSec, Str ''s''],
                check_stats = st\<rparr>)
         else if js_le (remainingRequestsDay state) (Num 0) \<and>
                 js_gt (num (resetRequestsAt state)) (of_now t)
         then
           (let waitSec = js_ceil (js_div (js_sub (num (resetRequestsAt state)) (of_now t)) (Num 1000))
            in \<lparr>allowed = False,
                reason = Some (Str ''Daily requests exhausted: Reset in '' # formatDuration waitSec),
                check_stats = st\<rparr>)
         else if js_lt (remainingTokensMinute state) estimatedTokens \<and>
                 js_gt (num (resetTokensAt state)) (of_now t)
         then
           (let waitSec = js_ceil (js_div (js_sub (num (resetTokensAt state)) (of_now t)) (Num 1000))
            in \<lparr>allowed = False,
                reason = Some [Str ''Token limit (TPM): Reset in '', N waitSec, Str ''s''],
                check_stats = st\<rparr>)
         else \<lparr>allowed = True, reason = None, check_stats = st\<rparr>)"

text \<open>The Cerebras check takes the time (\<open>_now\<close>) and does not read it.\<close>

definition canRequestCerebras :: "UsageStats \<Rightarrow> number \<Rightarrow> int \<Rightarrow> check_result" where
  "canRequestCerebras st estimatedTokens t =
     (let state = rateLimitState st
      in if js_le (remainingRequestsDay state) (Num 0) \<and>
            js_gt (num (resetRequestsDaySeconds state)) (Num 0)
         then
           \<lparr>allowed = False,
            reason = Some (Str ''Daily requests exhausted: Reset in '' #
                           formatDuration (js_ceil (num (resetRequestsDaySeconds state)))),
            check_stats = st\<rparr>
         else if js_lt (remainingTokensMinute state) estimatedTokens \<and>
                 js_gt (num (resetTokensMinuteSeconds state)) (Num 0)
         then
           \<lparr>allowed = False,
            reason = Some [Str ''Token limit (TPM): Reset in '',
                           N (js_ceil (num (resetTokensMinuteSeconds state))), Str ''s''],
            check_stats = st\<rparr>
         else \<lparr>allowed = True, reason = None, check_stats = st\<rparr>)"

definition canRequest :: "UsageTracker \<Rightarrow> ModelConfig \<Rightarrow> number \<Rightarrow> clock \<Rightarrow> check_result \<times> UsageTracker" where
  "canRequest tr model estimatedInputTokens clk =
     (let (st, tr') = getStats tr model clk
      in if model_provider model = groq
         then (canRequestGroq st estimatedInputTokens (now clk), tr')
         else (canRequestCerebras st estimatedInputTokens (now clk), tr'))"

subsection \<open>Optimistic recording, usage history\<close>

definition recordRequest :: "UsageTracker \<Rightarrow> ModelConfig \<Rightarrow> ProviderName \<Rightarrow> number \<Rightarrow> clock \<Rightarrow> UsageTracker" where
  "recordRequest tr model prov inputToks clk =
     (let (st, tr') = getStats tr model clk;
          st1 = st\<lparr>requestsToday := js_add (requestsToday st) (Num 1),
                   tokensToday := js_add (tokensToday st) inputToks\<rparr>;
          state = rateLimitState st1;
          state' =
            (if model_provider model = groq then
               (let a = (if js_gt (remainingRequestsDay state) (Num 0)
                         then state\<lparr>remainingRequestsDay := js_sub (remainingRequestsDay state) (Num 1)\<rparr>
                         else state)
                in if js_gt (remainingTokensMinute a) (Num 0)
                   then a\<lparr>remainingTokensMinute := js_sub (remainingTokensMinute a) inputToks\<rparr>
                   else a)
             else
               (let a = (if js_gt (remainingRequestsDay state) (Num 0)
                         then state\<lparr>remainingRequestsDay := js_sub (remainingRequestsDay state) (Num 1)\<rparr>
                         else state)
                in if js_gt (remainingTokensMinute a) (Num 0)
                   then a\<lparr>remainingTokensMinute := js_sub (remainingTokensMinute a) inputToks\<rparr>
                   else a))
      in tr'\<lparr>stats := (stats tr')(model_id model \<mapsto> st1\<lparr>rateLimitState := state'\<rparr>)\<rparr>)"

text \<open>\<open>history.slice(-maxHistorySize / 2)\<close> keeps the last 5000 records.\<close>

definition recordUsage :: "UsageTracker \<Rightarrow> string \<Rightarrow> ProviderName \<Rightarrow> number \<Rightarrow> number \<Rightarrow> int \<Rightarrow> UsageTracker" where
  "recordUsage tr mid prov inToks outToks t =
     (let h = history tr @ [\<lparr>modelId = mid, record_provider = prov, timestamp = t,
                             inputTokens = inToks, outputTokens = outToks\<rparr>]
      in tr\<lparr>history := (if length h > maxHistorySize
                         then drop (length h - maxHistorySize div 2) h else h)\<rparr>)"

definition getUsageStats :: "UsageTracker \<Rightarrow> string \<Rightarrow> UsageStats option" where
  "getUsageStats tr mid = stats tr mid"

subsection \<open>Projections for display\<close>

record capacity =
  requests :: number
  tokens :: number
  requestsResetAt :: "number option"
  tokensResetAt :: "number option"

definition getRemainingCapacity :: "UsageTracker \<Rightarrow> ModelConfig \<Rightarrow> clock \<Rightarrow> capacity \<times> UsageTracker" where
  "getRemainingCapacity tr model clk =
     (let (st, tr') = getStats tr model clk; state = rateLimitState st
      in if model_provider model = groq
         then (\<lparr>requests = remainingRequestsDay state,
                tokens = remainingTokensMinute state,
                requestsResetAt = resetRequestsAt state,
                tokensResetAt = resetTokensAt state\<rparr>, tr')
         else (\<lparr>requests = remainingRequestsDay state,
                tokens = remainingTokensMinute state,
                requestsResetAt =
                  Some (js_add (of_now (now clk)) (js_mul (num (resetRequestsDaySeconds state)) (Num 1000))),
                tokensResetAt =
                  Some (js_add (of_now (now clk)) (js_mul (num (resetTokensMinuteSeconds state)) (Num 1000)))\<rparr>,
               tr'))"

record rate_limit_info =
  info_provider :: ProviderName
  remainingRequests :: number
  remainingTokens :: number
  limitRequests :: number
  limitTokens :: number
  resetInfo :: template
  info_lastUpdated :: number

definition getRateLimitInfo :: "UsageTracker \<Rightarrow> ModelConfig \<Rightarrow> clock \<Rightarrow> rate_limit_info \<times> UsageTracker" where
  "getRateLimitInfo tr model clk =
     (let (st, tr') = getStats tr model clk; state = rateLimitState st
      in if model_provider model = groq
         then
           (let reqResetIn =
                  (if js_gt (num (resetRequestsAt state)) (of_now (now clk))
                   then formatDuration
                          (js_ceil (js_div (js_sub (num (resetRequestsAt state)) (of_now (now clk))) (Num 1000)))
                   else [Str ''now'']);
                tokResetIn =
                  (if js_gt (num (resetTokensAt state)) (of_now (now clk))
                   then [N (js_ceil (js_div (js_sub (num (resetTokensAt state)) (of_now (now clk))) (Num 1000))),
                         Str ''s'']
                   else [Str ''now''])
            in (\<lparr>info_provider = groq,
                  remainingRequests = remainingRequestsDay state,
                  remainingTokens = remainingTokensMinute state,
                  limitRequests = limitRequestsDay state,
                  limitTokens = limitTokensMinute state,
                  resetInfo = Str ''Requests reset: '' # reqResetIn @ Str '', Tokens reset: '' # tokResetIn,
                  info_lastUpdated = lastUpdated state\<rparr>, tr'))
         else
           (\<lparr>info_provider = cerebras,
             remainingRequests = remainingRequestsDay state,
             remainingTokens = remainingTokensMinute state,
             limitRequests = limitRequestsDay state,
             limitTokens = limitTokensMinute state,
             resetInfo = Str ''Requests reset: '' #
                         formatDuration (js_ceil (num (resetRequestsDaySeconds state))) @
                         [Str '', Tokens reset: '',
                          N (js_ceil (num (resetTokensMinuteSeconds state))), Str ''s''],
             info_lastUpdated = lastUpdated state\<rparr>, tr'))"

section \<open>Model manager (\<open>core/model-manager.ts\<close>)\<close>

text \<open>A message content is a string or something else (a list of parts, \<open>null\<close>), which
  counts for no characters. The length of a string is its number of code units.\<close>

datatype MessageContent = StringContent string | OtherContent

record ChatMessage =
  role :: string
  content :: MessageContent

datatype RotationStrategy = RoundRobin | Random | LeastUsed

record ProviderConfig =
  provider_name :: ProviderName
  apiKeyEnv :: string
  provider_models :: "ModelConfig list"

record ModelManagerOptions =
  opt_strategy :: "RotationStrategy option"
  opt_autoFallback :: "bool option"
  opt_providers :: "string list option"
  opt_modelIds :: "string list option"

record ModelManager =
  models :: "ModelConfig list"
  currentIndex :: nat
  strategy :: RotationStrategy
  autoFallback :: bool
  usageCount :: "string \<rightharpoonup> nat"

text \<open>
  What the manager throws: a \<open>TypeError\<close> when it reads a property of \<open>undefined\<close>, and
  its own errors, whose messages are
  \<open>`Model ${model.id} rate limited: ${check.reason}`\<close>,
  \<open>`All models rate limited:\n${skipped.join('\n')}`\<close> (kept as the list that is joined)
  and \<open>'No enabled models available with the specified filters'\<close>.
\<close>

datatype error =
    TypeError
  | ModelRateLimited string template
  | AllRateLimited "template list"
  | NoEnabledModels

definition getEnabledModels :: "ProviderConfig list \<Rightarrow> ModelConfig list" where
  "getEnabledModels providers = concat (map (\<lambda>p. filter enabled (provider_models p)) providers)"

text \<open>The constructor, over the configured providers. A filter that is absent or empty
  (\<open>options.providers?.length\<close> falsy) is not applied.\<close>

definition new_ModelManager :: "ProviderConfig list \<Rightarrow> ModelManagerOptions \<Rightarrow> error + ModelManager" where
  "new_ModelManager providers options =
     (let ms0 = getEnabledModels providers;
          ms1 = (case opt_providers options of
                   None \<Rightarrow> ms0
                 | Some ps \<Rightarrow> if ps = [] then ms0
                              else filter (\<lambda>m. providerText (model_provider m) \<in> set ps) ms0);
          ms2 = (case opt_modelIds options of
                   None \<Rightarrow> ms1
                 | Some ids \<Rightarrow> if ids = [] then ms1
                               else filter (\<lambda>m. model_id m \<in> set ids) ms1)
      in if ms2 = [] then Inl NoEnabledModels
         else Inr \<lparr>models = ms2,
                   currentIndex = 0,
                   strategy = (case opt_strategy options of None \<Rightarrow> RoundRobin | Some s \<Rightarrow> s),
                   autoFallback = (case opt_autoFallback options of None \<Rightarrow> True | Some b \<Rightarrow> b),
                   usageCount = Map.empty\<rparr>)"

definition contentLength :: "ChatMessage \<Rightarrow> nat" where
  "contentLength m = (case content m of StringContent c \<Rightarrow> length c | OtherContent \<Rightarrow> 0)"

definition estimateTokens :: "ChatMessage list \<Rightarrow> number" where
  "estimateTokens messages =
     (let totalChars = foldl (\<lambda>sum m. sum + contentLength m) 0 messages
      in js_ceil (js_div (Num (of_nat totalChars)) (Num 4)))"

text \<open>\<open>xs[i]\<close>: \<open>undefined\<close> out of range.\<close>

definition elemAt :: "'a list \<Rightarrow> nat \<Rightarrow> 'a option" where
  "elemAt xs i = (if i < length xs then Some (xs ! i) else None)"

definition countOf :: "ModelManager \<Rightarrow> ModelConfig \<Rightarrow> nat" where
  "countOf mg a = (case usageCount mg (model_id a) of None \<Rightarrow> 0 | Some c \<Rightarrow> c)"

text \<open>
  The second argument is the value of \<open>Math.floor(Math.random() * this.models.length)\<close>,
  read by the random strategy only. The sort of the least-used strategy is stable, as
  \<open>Array.prototype.sort\<close> is. The manager is constructed over a non-empty list; on an
  empty one JavaScript's \<open>% 0\<close> would make the cursor \<open>NaN\<close>, which the cursor of
  this model cannot be.
\<close>

definition selectByStrategy :: "ModelManager \<Rightarrow> nat \<Rightarrow> ModelConfig option \<times> ModelManager" where
  "selectByStrategy mg r =
     (case strategy mg of
        RoundRobin \<Rightarrow>
          (elemAt (models mg) (currentIndex mg),
           mg\<lparr>currentIndex := (currentIndex mg + 1) mod length (models mg)\<rparr>)
      | Random \<Rightarrow> (elemAt (models mg) r, mg)
      | LeastUsed \<Rightarrow> (elemAt (sort_key (countOf mg) (models mg)) 0, mg))"

type_synonym next_result = "(error + ModelConfig \<times> template list) \<times> ModelManager \<times> UsageTracker"

text \<open>
  The loop of \<open>getNextModel\<close>. Its first argument is \<open>this.models.length - attempts\<close>,
  the attempts that are left; \<open>rnd\<close> is the stream of random indices still to come. The
  tracker is the singleton the manager imports. A selection that is \<open>undefined\<close> makes
  \<open>canRequest\<close> throw when it reads \<open>model.id\<close>.
\<close>

fun getNextModel_loop ::
  "nat \<Rightarrow> (nat \<Rightarrow> nat) \<Rightarrow> number \<Rightarrow> clock \<Rightarrow> ModelManager \<Rightarrow> UsageTracker \<Rightarrow> template list \<Rightarrow> next_result"
where
  "getNextModel_loop 0 rnd est clk mg tr skipped = (Inl (AllRateLimited skipped), mg, tr)"
| "getNextModel_loop (Suc n) rnd est clk mg tr skipped =
     (case selectByStrategy mg (rnd 0) of
        (None, mg1) \<Rightarrow> (Inl TypeError, mg1, tr)
      | (Some model, mg1) \<Rightarrow>
          (let (check, tr1) = canRequest tr model est clk
           in if allowed check
              then (Inr (model, skipped),
                    mg1\<lparr>usageCount := (usageCount mg1)(model_id model \<mapsto> countOf mg1 model + 1)\<rparr>,
                    tr1)
              else if autoFallback mg1
              then getNextModel_loop n (\<lambda>i. rnd (Suc i)) est clk mg1 tr1
                     (skipped @ [[Str (providerText (model_provider model)), Str ''/'',
                                  Str (model_id model), Str '': ''] @
                                 (case reason check of None \<Rightarrow> [Str ''undefined''] | Some t \<Rightarrow> t)])
              else (Inl (ModelRateLimited (model_id model)
                           (case reason check of None \<Rightarrow> [Str ''undefined''] | Some t \<Rightarrow> t)),
                    mg1, tr1)))"

definition getNextModel ::
  "ModelManager \<Rightarrow> UsageTracker \<Rightarrow> (nat \<Rightarrow> nat) \<Rightarrow> ChatMessage list \<Rightarrow> clock \<Rightarrow> next_result"
where
  "getNextModel mg tr rnd messages clk =
     getNextModel_loop (length (models mg)) rnd (estimateTokens messages) clk mg tr []"

section \<open>Notions used in the statements\<close>

text \<open>
  The order of the admission check in the words of the specification: a cooldown that is
  active denies first; then a request budget that is at most \<open>0\<close> with its reset still to
  come; then a token budget below the estimated cost with its reset still to come;
  otherwise the request is allowed.
\<close>

datatype verdict = Allow | DenyCooldown | DenyRequests | DenyTokens

definition admissionOrder :: "bool \<Rightarrow> number \<Rightarrow> bool \<Rightarrow> number \<Rightarrow> number \<Rightarrow> bool \<Rightarrow> verdict" where
  "admissionOrder cooldownActive remainingReq reqResetAhead remainingTok estimated tokResetAhead =
     (if cooldownActive then DenyCooldown
      else if js_le remainingReq (Num 0) \<and> reqResetAhead then DenyRequests
      else if js_lt remainingTok estimated \<and> tokResetAhead then DenyTokens
      else Allow)"

text \<open>The verdict a check result stands for, read off the head of its message.\<close>

definition verdictOf :: "check_result \<Rightarrow> verdict option" where
  "verdictOf c =
     (if allowed c then (if reason c = None then Some Allow else None)
      else (case reason c of
              Some (Str s # _) \<Rightarrow>
                if s = ''Rate limited: Retry after '' then Some DenyCooldown
                else if s = ''Daily requests exhausted: Reset in '' then Some DenyRequests
                else if s = ''Token limit (TPM): Reset in '' then Some DenyTokens
                else None
            | _ \<Rightarrow> None))"

text \<open>The cooldown of the Groq check, and the instant at which a budget reported with
  \<open>secs\<close> seconds to go at \<open>lastUpdated\<close> is replenished, compared with the clock.\<close>

definition cooldownActive :: "RateLimitState \<Rightarrow> int \<Rightarrow> bool" where
  "cooldownActive state t =
     (truthy (num (retryAfter state)) \<and>
      js_gt (js_add (lastUpdated state) (js_mul (num (retryAfter state)) (Num 1000))) (of_now t))"

definition resetAhead :: "number \<Rightarrow> number \<Rightarrow> int \<Rightarrow> bool" where
  "resetAhead updated secs t = js_gt (js_add updated (js_mul secs (Num 1000))) (of_now t)"

text \<open>A counter that is a natural number (or \<open>NaN\<close>, which is not below zero).\<close>

fun nonnegInt :: "number \<Rightarrow> bool" where
  "nonnegInt NaN = True"
| "nonnegInt (Num a) = (0 \<le> a \<and> a = of_int \<lfloor>a\<rfloor>)"

text \<open>The rate-limit state the tracker works on for a model: that of its entry, or of
  the entry \<open>getStats\<close> would make.\<close>

definition stateOf :: "UsageTracker \<Rightarrow> ModelConfig \<Rightarrow> clock \<Rightarrow> RateLimitState" where
  "stateOf tr model clk = rateLimitState (fst (getStats tr model clk))"

text \<open>A run of optimistic recordings for one model, each with its token estimate and
  its reading of the clock.\<close>

definition recordRequests :: "UsageTracker \<Rightarrow> ModelConfig \<Rightarrow> (number \<times> clock) list \<Rightarrow> UsageTracker" where
  "recordRequests tr model reqs =
     foldl (\<lambda>tr' (toks, clk). recordRequest tr' model (model_provider model) toks clk) tr reqs"

text \<open>What the authoritative headers report, per family.\<close>

definition groqNames :: "string list" where
  "groqNames = [''x-ratelimit-remaining-requests'', ''x-ratelimit-remaining-tokens'',
                ''x-ratelimit-limit-requests'', ''x-ratelimit-limit-tokens'',
                ''x-ratelimit-reset-requests'', ''x-ratelimit-reset-tokens'']"

definition cerebrasNames :: "string list" where
  "cerebrasNames = [''x-ratelimit-remaining-requests-day'', ''x-ratelimit-remaining-tokens-minute'',
                    ''x-ratelimit-limit-requests-day'', ''x-ratelimit-limit-tokens-minute'',
                    ''x-ratelimit-reset-requests-day'', ''x-ratelimit-reset-tokens-minute'']"

definition supplies :: "Headers \<Rightarrow> string list \<Rightarrow> bool" where
  "supplies headers names = list_all (\<lambda>n. truthy_str (headers n)) names"

definition groqBudget :: "RateLimitState \<Rightarrow> number list" where
  "groqBudget s = [remainingRequestsDay s, remainingTokensMinute s, limitRequestsDay s,
                   limitTokensMinute s, num (resetRequestsAt s), num (resetTokensAt s)]"

definition groqReported :: "Headers \<Rightarrow> int \<Rightarrow> number list" where
  "groqReported headers t =
     [parseInt (the (headers ''x-ratelimit-remaining-requests'')),
      parseInt (the (headers ''x-ratelimit-remaining-tokens'')),
      parseInt (the (headers ''x-ratelimit-limit-requests'')),
      parseInt (the (headers ''x-ratelimit-limit-tokens'')),
      js_add (of_now t) (parseGroqDuration (the (headers ''x-ratelimit-reset-requests''))),
      js_add (of_now t) (parseGroqDuration (the (headers ''x-ratelimit-reset-tokens'')))]"

definition cerebrasBudget :: "RateLimitState \<Rightarrow> number list" where
  "cerebrasBudget s = [remainingRequestsDay s, remainingTokensMinute s, limitRequestsDay s,
                       limitTokensMinute s, num (resetRequestsDaySeconds s),
                       num (resetTokensMinuteSeconds s)]"

definition cerebrasReported :: "Headers \<Rightarrow> number list" where
  "cerebrasReported headers =
     [parseInt (the (headers ''x-ratelimit-remaining-requests-day'')),
      parseInt (the (headers ''x-ratelimit-remaining-tokens-minute'')),
      parseInt (the (headers ''x-ratelimit-limit-requests-day'')),
      parseInt (the (headers ''x-ratelimit-limit-tokens-minute'')),
      parseFloat (the (headers ''x-ratelimit-reset-requests-day'')),
      parseFloat (the (headers ''x-ratelimit-reset-tokens-minute''))]"

text \<open>The entry the fallback loop pushes for a candidate that is denied.\<close>

definition skipEntry :: "UsageTracker \<Rightarrow> number \<Rightarrow> clock \<Rightarrow> ModelConfig \<Rightarrow> template" where
  "skipEntry tr est clk model =
     [Str (providerText (model_provider model)), Str ''/'', Str (model_id model), Str '': ''] @
     (case reason (fst (canRequest tr model est clk)) of None \<Rightarrow> [Str ''undefined''] | Some t \<Rightarrow> t)"

definition deniesAll :: "UsageTracker \<Rightarrow> ModelConfig list \<Rightarrow> number \<Rightarrow> clock \<Rightarrow> bool" where
  "deniesAll tr ms est clk = list_all (\<lambda>m. \<not> allowed (fst (canRequest tr m est clk))) ms"

text \<open>
  Consecutive calls of \<open>getNextModel\<close> on one manager. Between two calls the rest of the
  program works on the tracker (it records requests and reconciles), so each call comes
  with the tracker it finds, its messages and its reading of the clock.
\<close>

fun getNextModels ::
  "ModelManager \<Rightarrow> (nat \<Rightarrow> nat) \<Rightarrow> (UsageTracker \<times> ChatMessage list \<times> clock) list
   \<Rightarrow> (error + ModelConfig \<times> template list) list \<times> ModelManager"
where
  "getNextModels mg rnd [] = ([], mg)"
| "getNextModels mg rnd ((tr, messages, clk) # calls) =
     (case getNextModel mg tr rnd messages clk of
        (r, mg1, _) \<Rightarrow> (case getNextModels mg1 rnd calls of (rs, mg2) \<Rightarrow> (r # rs, mg2)))"

definition admitsAll :: "ModelConfig list \<Rightarrow> (UsageTracker \<times> ChatMessage list \<times> clock) list \<Rightarrow> bool" where
  "admitsAll ms calls =
     list_all (\<lambda>(tr, messages, clk).
        list_all (\<lambda>m. allowed (fst (canRequest tr m (estimateTokens messages) clk))) ms) calls"

text \<open>The seconds until a reset, from the difference between the reset instant and the
  clock: none when the difference is not positive.\<close>

definition untilReset :: "number \<Rightarrow> number option" where
  "untilReset d = (if js_gt d (Num 0) then Some (js_ceil (js_div d (Num 1000))) else None)"

text \<open>The models that a run of calls returned.\<close>

definition admittedModels :: "(error + ModelConfig \<times> template list) list \<Rightarrow> ModelConfig list" where
  "admittedModels rs = concat (map (\<lambda>r. case r of Inl e \<Rightarrow> [] | Inr (m, sk) \<Rightarrow> [m]) rs)"

section \<open>Example configuration\<close>

definition demoLimits :: "rat \<Rightarrow> rat \<Rightarrow> RateLimits" where
  "demoLimits rpd tpm =
     \<lparr>requestsPerMinute = Num 30, requestsPerHour = None, requestsPerDay = Num rpd,
      tokensPerMinute = Num tpm, tokensPerHour = None, tokensPerDay = Num 1000000\<rparr>"

definition demoGroq :: ModelConfig where
  "demoGroq = \<lparr>model_id = ''g'', model_name = ''G'', model_provider = groq,
               limits = demoLimits 1 5, enabled = True\<rparr>"

definition demoCerebras :: ModelConfig where
  "demoCerebras = \<lparr>model_id = ''c'', model_name = ''C'', model_provider = cerebras,
                   limits = demoLimits 1 5, enabled = True\<rparr>"

definition demoClock :: "int \<Rightarrow> clock" where
  "demoClock t = \<lparr>now = t, today = 0\<rparr>"

text \<open>Headers of either family that report no request left and a reset in one minute.\<close>

definition exhaustedHeaders :: Headers where
  "exhaustedHeaders =
     [''x-ratelimit-remaining-requests'' \<mapsto> ''0'', ''x-ratelimit-reset-requests'' \<mapsto> ''1m'',
      ''x-ratelimit-remaining-requests-day'' \<mapsto> ''0'', ''x-ratelimit-reset-requests-day'' \<mapsto> ''60'']"

text \<open>The tracker after a first request to a model at time 1000 whose response reports
  the budget exhausted.\<close>

definition exhaustedTracker :: "ModelConfig \<Rightarrow> UsageTracker" where
  "exhaustedTracker model =
     updateFromHeaders
       (recordRequest (snd (canRequest new_UsageTracker model (Num 0) (demoClock 1000)))
          model (model_provider model) (Num 0) (demoClock 1000))
       (model_id model) (model_provider model) exhaustedHeaders 1000"


text \<open>The tracker after a first contact with a model at time 1000 whose response
  carries \<open>retry-after: 30\<close>.\<close>

definition cooldownTracker :: "ModelConfig \<Rightarrow> UsageTracker" where
  "cooldownTracker model =
     updateFromHeaders (snd (canRequest new_UsageTracker model (Num 0) (demoClock 1000)))
       (model_id model) (model_provider model) [''retry-after'' \<mapsto> ''30''] 1000"

text \<open>Complete rate-limit headers of each family.\<close>

definition fullGroqHeaders :: Headers where
  "fullGroqHeaders =
     [''x-ratelimit-remaining-requests'' \<mapsto> ''14370'', ''x-ratelimit-remaining-tokens'' \<mapsto> ''5972'',
      ''x-ratelimit-limit-requests'' \<mapsto> ''14400'', ''x-ratelimit-limit-tokens'' \<mapsto> ''6000'',
      ''x-ratelimit-reset-requests'' \<mapsto> ''2m59.56s'', ''x-ratelimit-reset-tokens'' \<mapsto> ''7.66s'']"

definition fullCerebrasHeaders :: Headers where
  "fullCerebrasHeaders =
     [''x-ratelimit-remaining-requests-day'' \<mapsto> ''14399'', ''x-ratelimit-remaining-tokens-minute'' \<mapsto> ''59000'',
      ''x-ratelimit-limit-requests-day'' \<mapsto> ''14400'', ''x-ratelimit-limit-tokens-minute'' \<mapsto> ''60000'',
      ''x-ratelimit-reset-requests-day'' \<mapsto> ''33011.5'', ''x-ratelimit-reset-tokens-minute'' \<mapsto> ''11.25'']"

definition demoRequests :: "(number \<times> clock) list" where
  "demoRequests = [(Num 3, demoClock 1000), (Num 2, demoClock 1001)]"

text \<open>Headers whose remaining-requests value is not a number, and the tracker after a
  first admission check of a model at time 1000.\<close>

definition malformedHeaders :: Headers where
  "malformedHeaders =
     [''x-ratelimit-remaining-requests'' \<mapsto> ''unlimited'',
      ''x-ratelimit-remaining-requests-day'' \<mapsto> ''unlimited'']"

definition checkedTracker :: "ModelConfig \<Rightarrow> UsageTracker" where
  "checkedTracker model = snd (canRequest new_UsageTracker model (Num 0) (demoClock 1000))"

definition nextDay :: clock where
  "nextDay = \<lparr>now = 86401000, today = 86400000\<rparr>"

text \<open>A manager over the two example models, and the tracker after a first request to
  each of them whose response reports the budget exhausted.\<close>

definition demoManager :: "RotationStrategy \<Rightarrow> ModelManager" where
  "demoManager s =
     \<lparr>models = [demoGroq, demoCerebras], currentIndex = 0, strategy = s,
      autoFallback = True, usageCount = Map.empty\<rparr>"

definition exhaustedBoth :: UsageTracker where
  "exhaustedBoth =
     updateFromHeaders
       (recordRequest (snd (canRequest (exhaustedTracker demoGroq) demoCerebras (Num 0) (demoClock 1000)))
          demoCerebras cerebras (Num 0) (demoClock 1000))
       ''c'' cerebras exhaustedHeaders 1000"

definition demoCalls :: "(UsageTracker \<times> ChatMessage list \<times> clock) list" where
  "demoCalls =
     [(new_UsageTracker, [\<lparr>role = ''user'', content = StringContent ''hello''\<rparr>], demoClock 1000),
      (exhaustedTracker demoGroq, [], demoClock 62000)]"

section \<open>Basic facts\<close>

lemma getStats_state:
  "stats tr (model_id m) = Some st \<Longrightarrow> rateLimitState (fst (getStats tr m clk)) = rateLimitState st"
  by (simp add: getStats_def Let_def)

lemma canRequest_fst:
  "fst (canRequest tr m est clk) =
     (if model_provider m = groq then canRequestGroq (fst (getStats tr m clk)) est (now clk)
      else canRequestCerebras (fst (getStats tr m clk)) est (now clk))"
  by (simp add: canRequest_def split: prod.splits)

lemma canRequest_snd: "snd (canRequest tr m est clk) = snd (getStats tr m clk)"
  by (simp add: canRequest_def split: prod.splits)

text \<open>What reconciliation leaves in each field of the state.\<close>

lemma updateFromGroqHeaders_fields:
  "remainingRequestsDay (updateFromGroqHeaders s h t) =
     (if truthy_str (h ''x-ratelimit-remaining-requests'') then parseInt (the (h ''x-ratelimit-remaining-requests'')) else remainingRequestsDay s)"
  "remainingTokensMinute (updateFromGroqHeaders s h t) =
     (if truthy_str (h ''x-ratelimit-remaining-tokens'') then parseInt (the (h ''x-ratelimit-remaining-tokens'')) else remainingTokensMinute s)"
  "limitRequestsDay (updateFromGroqHeaders s h t) =
     (if truthy_str (h ''x-ratelimit-limit-requests'') then parseInt (the (h ''x-ratelimit-limit-requests'')) else limitRequestsDay s)"
  "limitTokensMinute (updateFromGroqHeaders s h t) =
     (if truthy_str (h ''x-ratelimit-limit-tokens'') then parseInt (the (h ''x-ratelimit-limit-tokens'')) else limitTokensMinute s)"
  "resetRequestsAt (updateFromGroqHeaders s h t) =
     (if truthy_str (h ''x-ratelimit-reset-requests'') then Some (js_add (of_now t) (parseGroqDuration (the (h ''x-ratelimit-reset-requests'')))) else resetRequestsAt s)"
  "resetTokensAt (updateFromGroqHeaders s h t) =
     (if truthy_str (h ''x-ratelimit-reset-tokens'') then Some (js_add (of_now t) (parseGroqDuration (the (h ''x-ratelimit-reset-tokens'')))) else resetTokensAt s)"
  "retryAfter (updateFromGroqHeaders s h t) =
     (if truthy_str (h ''retry-after'') then Some (parseInt (the (h ''retry-after''))) else retryAfter s)"
  "resetRequestsDaySeconds (updateFromGroqHeaders s h t) = resetRequestsDaySeconds s"
  "resetTokensMinuteSeconds (updateFromGroqHeaders s h t) = resetTokensMinuteSeconds s"
  "lastUpdated (updateFromGroqHeaders s h t) = of_now t"
proof -
  define a1 where "a1 = h ''x-ratelimit-remaining-requests''"
  define a2 where "a2 = h ''x-ratelimit-remaining-tokens''"
  define a3 where "a3 = h ''x-ratelimit-limit-requests''"
  define a4 where "a4 = h ''x-ratelimit-limit-tokens''"
  define a5 where "a5 = h ''x-ratelimit-reset-requests''"
  define a6 where "a6 = h ''x-ratelimit-reset-tokens''"
  define a7 where "a7 = h ''retry-after''"
  note folds = a1_def[symmetric] a2_def[symmetric] a3_def[symmetric] a4_def[symmetric] a5_def[symmetric] a6_def[symmetric] a7_def[symmetric]
  show "remainingRequestsDay (updateFromGroqHeaders s h t) =
     (if truthy_str (h ''x-ratelimit-remaining-requests'') then parseInt (the (h ''x-ratelimit-remaining-requests'')) else remainingRequestsDay s)"
    unfolding updateFromGroqHeaders_def folds by (simp add: Let_def)
  show "remainingTokensMinute (updateFromGroqHeaders s h t) =
     (if truthy_str (h ''x-ratelimit-remaining-tokens'') then parseInt (the (h ''x-ratelimit-remaining-tokens'')) else remainingTokensMinute s)"
    unfolding updateFromGroqHeaders_def folds by (simp add: Let_def)
  show "limitRequestsDay (updateFromGroqHeaders s h t) =
     (if truthy_str (h ''x-ratelimit-limit-requests'') then parseInt (the (h ''x-ratelimit-limit-requests'')) else limitRequestsDay s)"
    unfolding updateFromGroqHeaders_def folds by (simp add: Let_def)
  show "limitTokensMinute (updateFromGroqHeaders s h t) =
     (if truthy_str (h ''x-ratelimit-limit-tokens'') then parseInt (the (h ''x-ratelimit-limit-tokens'')) else limitTokensMinute s)"
    unfolding updateFromGroqHeaders_def folds by (simp add: Let_def)
  show "resetRequestsAt (updateFromGroqHeaders s h t) =
     (if truthy_str (h ''x-ratelimit-reset-requests'') then Some (js_add (of_now t) (parseGroqDuration (the (h ''x-ratelimit-reset-requests'')))) else resetRequestsAt s)"
    unfolding updateFromGroqHeaders_def folds by (simp add: Let_def)
  show "resetTokensAt (updateFromGroqHeaders s h t) =
     (if truthy_str (h ''x-ratelimit-reset-tokens'') then Some (js_add (of_now t) (parseGroqDuration (the (h ''x-ratelimit-reset-tokens'')))) else resetTokensAt s)"
    unfolding updateFromGroqHeaders_def folds by (simp add: Let_def)
  show "retryAfter (updateFromGroqHeaders s h t) =
     (if truthy_str (h ''retry-after'') then Some (parseInt (the (h ''retry-after''))) else retryAfter s)"
    unfolding updateFromGroqHeaders_def folds by (simp add: Let_def)
  show "resetRequestsDaySeconds (updateFromGroqHeaders s h t) = resetRequestsDaySeconds s"
    unfolding updateFromGroqHeaders_def folds by (simp add: Let_def)
  show "resetTokensMinuteSeconds (updateFromGroqHeaders s h t) = resetTokensMinuteSeconds s"
    unfolding updateFromGroqHeaders_def folds by (simp add: Let_def)
  show "lastUpdated (updateFromGroqHeaders s h t) = of_now t"
    unfolding updateFromGroqHeaders_def folds by (simp add: Let_def)
qed

lemma updateFromCerebrasHeaders_fields:
  "remainingRequestsDay (updateFromCerebrasHeaders s h t) =
     (if truthy_str (h ''x-ratelimit-remaining-requests-day'') then parseInt (the (h ''x-ratelimit-remaining-requests-day'')) else remainingRequestsDay s)"
  "remainingTokensMinute (updateFromCerebrasHeaders s h t) =
     (if truthy_str (h ''x-ratelimit-remaining-tokens-minute'') then parseInt (the (h ''x-ratelimit-remaining-tokens-minute'')) else remainingTokensMinute s)"
  "limitRequestsDay (updateFromCerebrasHeaders s h t) =
     (if truthy_str (h ''x-ratelimit-limit-requests-day'') then parseInt (the (h ''x-ratelimit-limit-requests-day'')) else limitRequestsDay s)"
  "limitTokensMinute (updateFromCerebrasHeaders s h t) =
     (if truthy_str (h ''x-ratelimit-limit-tokens-minute'') then parseInt (the (h ''x-ratelimit-limit-tokens-minute'')) else limitTokensMinute s)"
  "resetRequestsDaySeconds (updateFromCerebrasHeaders s h t) =
     (if truthy_str (h ''x-ratelimit-reset-requests-day'') then Some (parseFloat (the (h ''x-ratelimit-reset-requests-day''))) else resetRequestsDaySeconds s)"
  "resetTokensMinuteSeconds (updateFromCerebrasHeaders s h t) =
     (if truthy_str (h ''x-ratelimit-reset-tokens-minute'') then Some (parseFloat (the (h ''x-ratelimit-reset-tokens-minute''))) else resetTokensMinuteSeconds s)"
  "resetRequestsAt (updateFromCerebrasHeaders s h t) = resetRequestsAt s"
  "resetTokensAt (updateFromCerebrasHeaders s h t) = resetTokensAt s"
  "retryAfter (updateFromCerebrasHeaders s h t) = retryAfter s"
  "lastUpdated (updateFromCerebrasHeaders s h t) = of_now t"
proof -
  define a1 where "a1 = h ''x-ratelimit-remaining-requests-day''"
  define a2 where "a2 = h ''x-ratelimit-remaining-tokens-minute''"
  define a3 where "a3 = h ''x-ratelimit-limit-requests-day''"
  define a4 where "a4 = h ''x-ratelimit-limit-tokens-minute''"
  define a5 where "a5 = h ''x-ratelimit-reset-requests-day''"
  define a6 where "a6 = h ''x-ratelimit-reset-tokens-minute''"
  note folds = a1_def[symmetric] a2_def[symmetric] a3_def[symmetric] a4_def[symmetric] a5_def[symmetric] a6_def[symmetric]
  show "remainingRequestsDay (updateFromCerebrasHeaders s h t) =
     (if truthy_str (h ''x-ratelimit-remaining-requests-day'') then parseInt (the (h ''x-ratelimit-remaining-requests-day'')) else remainingRequestsDay s)"
    unfolding updateFromCerebrasHeaders_def folds by (simp add: Let_def)
  show "remainingTokensMinute (updateFromCerebrasHeaders s h t) =
     (if truthy_str (h ''x-ratelimit-remaining-tokens-minute'') then parseInt (the (h ''x-ratelimit-remaining-tokens-minute'')) else remainingTokensMinute s)"
    unfolding updateFromCerebrasHeaders_def folds by (simp add: Let_def)
  show "limitRequestsDay (updateFromCerebrasHeaders s h t) =
     (if truthy_str (h ''x-ratelimit-limit-requests-day'') then parseInt (the (h ''x-ratelimit-limit-requests-day'')) else limitRequestsDay s)"
    unfolding updateFromCerebrasHeaders_def folds by (simp add: Let_def)
  show "limitTokensMinute (updateFromCerebrasHeaders s h t) =
     (if truthy_str (h ''x-ratelimit-limit-tokens-minute'') then parseInt (the (h ''x-ratelimit-limit-tokens-minute'')) else limitTokensMinute s)"
    unfolding updateFromCerebrasHeaders_def folds by (simp add: Let_def)
  show "resetRequestsDaySeconds (updateFromCerebrasHeaders s h t) =
     (if truthy_str (h ''x-ratelimit-reset-requests-day'') then Some (parseFloat (the (h ''x-ratelimit-reset-requests-day''))) else resetRequestsDaySeconds s)"
    unfolding updateFromCerebrasHeaders_def folds by (simp add: Let_def)
  show "resetTokensMinuteSeconds (updateFromCerebrasHeaders s h t) =
     (if truthy_str (h ''x-ratelimit-reset-tokens-minute'') then Some (parseFloat (the (h ''x-ratelimit-reset-tokens-minute''))) else resetTokensMinuteSeconds s)"
    unfolding updateFromCerebrasHeaders_def folds by (simp add: Let_def)
  show "resetRequestsAt (updateFromCerebrasHeaders s h t) = resetRequestsAt s"
    unfolding updateFromCerebrasHeaders_def folds by (simp add: Let_def)
  show "resetTokensAt (updateFromCerebrasHeaders s h t) = resetTokensAt s"
    unfolding updateFromCerebrasHeaders_def folds by (simp add: Let_def)
  show "retryAfter (updateFromCerebrasHeaders s h t) = retryAfter s"
    unfolding updateFromCerebrasHeaders_def folds by (simp add: Let_def)
  show "lastUpdated (updateFromCerebrasHeaders s h t) = of_now t"
    unfolding updateFromCerebrasHeaders_def folds by (simp add: Let_def)
qed

lemma allowed_canRequestCerebras:
  "allowed (canRequestCerebras st est t) =
     (\<not> (js_le (remainingRequestsDay (rateLimitState st)) (Num 0) \<and>
         js_gt (num (resetRequestsDaySeconds (rateLimitState st))) (Num 0)) \<and>
      \<not> (js_lt (remainingTokensMinute (rateLimitState st)) est \<and>
         js_gt (num (resetTokensMinuteSeconds (rateLimitState st))) (Num 0)))"
  by (simp add: canRequestCerebras_def Let_def)

lemma allowed_canRequestGroq:
  "allowed (canRequestGroq st est t) =
     (\<not> cooldownActive (rateLimitState st) t \<and>
      \<not> (js_le (remainingRequestsDay (rateLimitState st)) (Num 0) \<and>
         js_gt (num (resetRequestsAt (rateLimitState st))) (of_now t)) \<and>
      \<not> (js_lt (remainingTokensMinute (rateLimitState st)) est \<and>
         js_gt (num (resetTokensAt (rateLimitState st))) (of_now t)))"
  by (simp add: canRequestGroq_def cooldownActive_def Let_def)

lemma exhausted_cerebras_entry:
  "stats (exhaustedTracker demoCerebras) ''c'' =
     Some \<lparr>provider = cerebras,
       rateLimitState =
         \<lparr>remainingRequestsDay = Num 0, remainingTokensMinute = Num 5,
          limitRequestsDay = Num 1, limitTokensMinute = Num 5,
          resetRequestsAt = None, resetTokensAt = None, retryAfter = None,
          resetRequestsDaySeconds = Some (Num 60),
          resetTokensMinuteSeconds = Some (Num 0), lastUpdated = Num 1000\<rparr>,
       requestsToday = Num 1, tokensToday = Num 0, dayStart = 0\<rparr>"
  by code_simp

lemma exhausted_groq_entry:
  "stats (exhaustedTracker demoGroq) ''g'' =
     Some \<lparr>provider = groq,
       rateLimitState =
         \<lparr>remainingRequestsDay = Num 0, remainingTokensMinute = Num 5,
          limitRequestsDay = Num 1, limitTokensMinute = Num 5,
          resetRequestsAt = Some (Num 61000), resetTokensAt = Some (Num 0), retryAfter = None,
          resetRequestsDaySeconds = None,
          resetTokensMinuteSeconds = None, lastUpdated = Num 1000\<rparr>,
       requestsToday = Num 1, tokensToday = Num 0, dayStart = 0\<rparr>"
  by code_simp

lemma demo_ids:
  "model_id demoCerebras = ''c''" "model_provider demoCerebras = cerebras"
  "model_id demoGroq = ''g''" "model_provider demoGroq = groq"
  by (simp_all add: demoCerebras_def demoGroq_def)

lemma demo_clock: "now (demoClock t) = t" "today (demoClock t) = 0"
  by (simp_all add: demoClock_def)

lemma stateOf_entry: "stats tr (model_id m) = Some st \<Longrightarrow> stateOf tr m clk = rateLimitState st"
  by (simp add: stateOf_def getStats_state)

lemma rotate_as_map:
  "c < length ms \<Longrightarrow> map (\<lambda>i. ms ! ((c + i) mod length ms)) [0..<length ms] = rotate c ms"
  by (rule nth_equalityI) (simp_all add: nth_rotate)

section \<open>Reset replenishment (C1)\<close>

text \<open>
  For Groq the request test compares the stored reset instant with the clock, so a
  counter at or below zero stops denying once that instant has passed.
\<close>

lemma canRequestGroq_reset_elapsed:
  assumes "\<not> js_gt (num (resetRequestsAt (rateLimitState st))) (of_now t)"
  shows "verdictOf (canRequestGroq st est t) \<noteq> Some DenyRequests"
    and "\<not> cooldownActive (rateLimitState st) t \<Longrightarrow>
         \<not> js_lt (remainingTokensMinute (rateLimitState st)) est \<Longrightarrow>
         allowed (canRequestGroq st est t)"
  using assms by (simp_all add: canRequestGroq_def verdictOf_def cooldownActive_def Let_def)

text \<open>The Cerebras check gives the same answer at every time.\<close>

lemma canRequestCerebras_ignores_clock:
  "canRequestCerebras st est t = canRequestCerebras st est t'"
  by (simp add: canRequestCerebras_def)

text \<open>
  C1. For both families a remaining request counter at or below zero is to stop denying
  once its reset instant has passed. The Cerebras check does not read the clock: a
  Cerebras model whose response at time 1000 reported no request left and a reset in 60
  seconds is denied at every later time \<open>t\<close>, on any day and for any token estimate,
  while the Groq model with the same report is admitted again at time 62000.
\<close>

theorem canRequestCerebras_stale_counter_denied:
  "\<not> allowed (fst (canRequest (exhaustedTracker demoCerebras) demoCerebras est \<lparr>now = t, today = d\<rparr>))
   \<and> allowed (fst (canRequest (exhaustedTracker demoGroq) demoGroq (Num 0) \<lparr>now = 62000, today = d\<rparr>))"
proof -
  have "rateLimitState (fst (getStats (exhaustedTracker demoCerebras) demoCerebras \<lparr>now = t, today = d\<rparr>))
        = rateLimitState (the (stats (exhaustedTracker demoCerebras) ''c''))"
    using getStats_state[of "exhaustedTracker demoCerebras" demoCerebras]
    by (simp add: demo_ids exhausted_cerebras_entry)
  moreover have "rateLimitState (fst (getStats (exhaustedTracker demoGroq) demoGroq \<lparr>now = 62000, today = d\<rparr>))
        = rateLimitState (the (stats (exhaustedTracker demoGroq) ''g''))"
    using getStats_state[of "exhaustedTracker demoGroq" demoGroq]
    by (simp add: demo_ids exhausted_groq_entry)
  ultimately show ?thesis
    by (simp add: canRequest_fst demo_ids exhausted_cerebras_entry exhausted_groq_entry
        allowed_canRequestCerebras allowed_canRequestGroq cooldownActive_def js_gt_def)
qed

section \<open>Order of the admission check (C2)\<close>

lemma canRequestGroq_order:
  "verdictOf (canRequestGroq st est t) =
     Some (admissionOrder (cooldownActive (rateLimitState st) t)
             (remainingRequestsDay (rateLimitState st))
             (js_gt (num (resetRequestsAt (rateLimitState st))) (of_now t))
             (remainingTokensMinute (rateLimitState st)) est
             (js_gt (num (resetTokensAt (rateLimitState st))) (of_now t)))"
  by (simp add: canRequestGroq_def verdictOf_def admissionOrder_def cooldownActive_def Let_def)

lemma canRequestCerebras_order:
  "verdictOf (canRequestCerebras st est t) =
     Some (admissionOrder False
             (remainingRequestsDay (rateLimitState st))
             (js_gt (num (resetRequestsDaySeconds (rateLimitState st))) (Num 0))
             (remainingTokensMinute (rateLimitState st)) est
             (js_gt (num (resetTokensMinuteSeconds (rateLimitState st))) (Num 0)))"
  by (simp add: canRequestCerebras_def verdictOf_def admissionOrder_def Let_def)

lemma canRequestGroq_cooldown_reason:
  "cooldownActive (rateLimitState st) t \<Longrightarrow>
   reason (canRequestGroq st est t) =
     Some [Str ''Rate limited: Retry after '',
           N (js_ceil (js_sub (num (retryAfter (rateLimitState st)))
                (js_div (js_sub (of_now t) (lastUpdated (rateLimitState st))) (Num 1000)))),
           Str ''s'']"
  by (simp add: canRequestGroq_def cooldownActive_def Let_def)

lemma cooldown_groq_entry:
  "stats (cooldownTracker demoGroq) ''g'' =
     Some \<lparr>provider = groq,
       rateLimitState =
         \<lparr>remainingRequestsDay = Num 1, remainingTokensMinute = Num 5,
          limitRequestsDay = Num 1, limitTokensMinute = Num 5,
          resetRequestsAt = Some (Num 0), resetTokensAt = Some (Num 0), retryAfter = Some (Num 30),
          resetRequestsDaySeconds = None,
          resetTokensMinuteSeconds = None, lastUpdated = Num 1000\<rparr>,
       requestsToday = Num 0, tokensToday = Num 0, dayStart = 0\<rparr>"
  unfolding cooldownTracker_def by code_simp

lemma cooldown_cerebras_entry:
  "stats (cooldownTracker demoCerebras) ''c'' =
     Some \<lparr>provider = cerebras,
       rateLimitState =
         \<lparr>remainingRequestsDay = Num 1, remainingTokensMinute = Num 5,
          limitRequestsDay = Num 1, limitTokensMinute = Num 5,
          resetRequestsAt = None, resetTokensAt = None, retryAfter = None,
          resetRequestsDaySeconds = Some (Num 0),
          resetTokensMinuteSeconds = Some (Num 0), lastUpdated = Num 1000\<rparr>,
       requestsToday = Num 0, tokensToday = Num 0, dayStart = 0\<rparr>"
  unfolding cooldownTracker_def by code_simp

text \<open>
  C2, as stated, fails for Cerebras. A response that carries \<open>retry-after: 30\<close> at time
  1000 leaves a cooldown that denies the Groq model at time 2000; the Cerebras
  reconciliation does not read that header, its state has no \<open>retryAfter\<close>, and its check
  has no cooldown step, so the Cerebras model is allowed. The Cerebras check allows even
  the state of the Groq model, whose cooldown is active.
\<close>

theorem cerebras_cooldown_counterexample:
  "verdictOf (fst (canRequest (cooldownTracker demoGroq) demoGroq (Num 0) (demoClock 2000))) = Some DenyCooldown
   \<and> verdictOf (fst (canRequest (cooldownTracker demoCerebras) demoCerebras (Num 0) (demoClock 2000))) = Some Allow
   \<and> cooldownActive (rateLimitState (the (stats (cooldownTracker demoGroq) ''g''))) 2000
   \<and> verdictOf (canRequestCerebras (the (stats (cooldownTracker demoGroq) ''g'')) (Num 0) 2000) = Some Allow"
proof -
  have g: "stateOf (cooldownTracker demoGroq) demoGroq (demoClock 2000)
           = rateLimitState (the (stats (cooldownTracker demoGroq) ''g''))"
    using stateOf_entry[of "cooldownTracker demoGroq" demoGroq] by (simp add: demo_ids cooldown_groq_entry)
  have c: "stateOf (cooldownTracker demoCerebras) demoCerebras (demoClock 2000)
           = rateLimitState (the (stats (cooldownTracker demoCerebras) ''c''))"
    using stateOf_entry[of "cooldownTracker demoCerebras" demoCerebras] by (simp add: demo_ids cooldown_cerebras_entry)
  show ?thesis
    using g c
    by (simp add: canRequest_fst canRequestGroq_order canRequestCerebras_order stateOf_def demo_ids
        cooldown_groq_entry cooldown_cerebras_entry admissionOrder_def cooldownActive_def js_gt_def demo_clock)
qed

text \<open>
  C2, amended. For a Groq model the check follows the order of the specification: an
  active cooldown denies first, with the seconds of cooldown that remain in its message;
  then the request budget, then the token budget, each only while its reset instant is
  ahead of the clock; otherwise the request is allowed. For a Cerebras model there is no
  cooldown step; while the stored seconds until reset agree with the clock (they are
  positive exactly when the instant \<open>lastUpdated + 1000 * seconds\<close> is still ahead), the
  request budget is tested first, then the token budget, and otherwise the request is
  allowed.
\<close>

theorem canRequest_order:
  "(model_provider m = groq \<longrightarrow>
      verdictOf (fst (canRequest tr m est clk)) =
        Some (admissionOrder (cooldownActive (stateOf tr m clk) (now clk))
                (remainingRequestsDay (stateOf tr m clk))
                (js_gt (num (resetRequestsAt (stateOf tr m clk))) (of_now (now clk)))
                (remainingTokensMinute (stateOf tr m clk)) est
                (js_gt (num (resetTokensAt (stateOf tr m clk))) (of_now (now clk))))
      \<and> (cooldownActive (stateOf tr m clk) (now clk) \<longrightarrow>
           reason (fst (canRequest tr m est clk)) =
             Some [Str ''Rate limited: Retry after '',
                   N (js_ceil (js_sub (num (retryAfter (stateOf tr m clk)))
                        (js_div (js_sub (of_now (now clk)) (lastUpdated (stateOf tr m clk))) (Num 1000)))),
                   Str ''s'']))
   \<and> (model_provider m = cerebras \<and>
      js_gt (num (resetRequestsDaySeconds (stateOf tr m clk))) (Num 0)
        = resetAhead (lastUpdated (stateOf tr m clk)) (num (resetRequestsDaySeconds (stateOf tr m clk))) (now clk) \<and>
      js_gt (num (resetTokensMinuteSeconds (stateOf tr m clk))) (Num 0)
        = resetAhead (lastUpdated (stateOf tr m clk)) (num (resetTokensMinuteSeconds (stateOf tr m clk))) (now clk) \<longrightarrow>
      verdictOf (fst (canRequest tr m est clk)) =
        Some (admissionOrder False
                (remainingRequestsDay (stateOf tr m clk))
                (resetAhead (lastUpdated (stateOf tr m clk)) (num (resetRequestsDaySeconds (stateOf tr m clk))) (now clk))
                (remainingTokensMinute (stateOf tr m clk)) est
                (resetAhead (lastUpdated (stateOf tr m clk)) (num (resetTokensMinuteSeconds (stateOf tr m clk))) (now clk))))"
  by (simp add: canRequest_fst stateOf_def canRequestGroq_order canRequestCerebras_order
      canRequestGroq_cooldown_reason)

theorem canRequest_order_witness:
  "model_provider demoGroq = groq
   \<and> cooldownActive (stateOf (cooldownTracker demoGroq) demoGroq (demoClock 2000)) (now (demoClock 2000))
   \<and> verdictOf (fst (canRequest (cooldownTracker demoGroq) demoGroq (Num 0) (demoClock 2000))) = Some DenyCooldown
   \<and> reason (fst (canRequest (cooldownTracker demoGroq) demoGroq (Num 0) (demoClock 2000)))
       = Some [Str ''Rate limited: Retry after '', N (Num 29), Str ''s'']
   \<and> model_provider demoCerebras = cerebras
   \<and> resetAhead (lastUpdated (stateOf (exhaustedTracker demoCerebras) demoCerebras (demoClock 1000)))
        (num (resetRequestsDaySeconds (stateOf (exhaustedTracker demoCerebras) demoCerebras (demoClock 1000)))) (now (demoClock 1000))
   \<and> verdictOf (fst (canRequest (exhaustedTracker demoCerebras) demoCerebras (Num 0) (demoClock 1000))) = Some DenyRequests"
proof -
  have g: "stateOf (cooldownTracker demoGroq) demoGroq (demoClock 2000)
           = rateLimitState (the (stats (cooldownTracker demoGroq) ''g''))"
    using stateOf_entry[of "cooldownTracker demoGroq" demoGroq] by (simp add: demo_ids cooldown_groq_entry)
  have c: "stateOf (exhaustedTracker demoCerebras) demoCerebras (demoClock 1000)
           = rateLimitState (the (stats (exhaustedTracker demoCerebras) ''c''))"
    using stateOf_entry[of "exhaustedTracker demoCerebras" demoCerebras] by (simp add: demo_ids exhausted_cerebras_entry)
  show ?thesis
    using canRequest_order[of demoGroq "cooldownTracker demoGroq" "Num 0" "demoClock 2000"]
      canRequest_order[of demoCerebras "exhaustedTracker demoCerebras" "Num 0" "demoClock 1000"]
    by (simp add: g c demo_ids cooldown_groq_entry exhausted_cerebras_entry admissionOrder_def
        cooldownActive_def resetAhead_def js_gt_def demo_clock)
qed

section \<open>Reconciliation precedence (C3)\<close>

lemma recordRequest_entry:
  "stats (recordRequest tr m p toks clk) (model_id m) \<noteq> None"
  by (simp add: recordRequest_def getStats_def Let_def split: prod.splits)

lemma recordRequests_entry:
  "reqs \<noteq> [] \<or> stats tr (model_id m) \<noteq> None \<Longrightarrow> stats (recordRequests tr m reqs) (model_id m) \<noteq> None"
proof (induction reqs arbitrary: tr)
  case Nil
  then show ?case by (simp add: recordRequests_def)
next
  case (Cons r reqs)
  obtain toks clk where r: "r = (toks, clk)" by (cases r)
  have "stats (recordRequests (recordRequest tr m (model_provider m) toks clk) m reqs) (model_id m) \<noteq> None"
    by (rule Cons.IH) (simp add: recordRequest_entry)
  then show ?case by (simp add: recordRequests_def r)
qed

lemma updateFromGroqHeaders_budget:
  "supplies headers groqNames \<Longrightarrow> groqBudget (updateFromGroqHeaders s headers t) = groqReported headers t"
  by (simp add: supplies_def groqNames_def groqBudget_def groqReported_def updateFromGroqHeaders_fields)

lemma updateFromCerebrasHeaders_budget:
  "supplies headers cerebrasNames \<Longrightarrow>
   cerebrasBudget (updateFromCerebrasHeaders s headers t) = cerebrasReported headers"
  by (simp add: supplies_def cerebrasNames_def cerebrasBudget_def cerebrasReported_def
      updateFromCerebrasHeaders_fields)

text \<open>
  C3. After any run of optimistic recordings for a model (which leaves the model with an
  entry), a reconciliation whose headers supply the remaining, limit and reset values of
  the family leaves exactly the reported values in the remaining, limit and reset fields:
  the parsed counters, and for the resets the time of the call plus the parsed duration
  (Groq) or the parsed seconds (Cerebras). The recordings and the tracker before them do
  not appear in the result.
\<close>

theorem reconcile_overwrites_decrements:
  "(reqs \<noteq> [] \<or> stats tr (model_id m) \<noteq> None) \<longrightarrow>
   (supplies headers groqNames \<longrightarrow>
      (\<exists>st. stats (updateFromHeaders (recordRequests tr m reqs) (model_id m) groq headers t) (model_id m) = Some st
            \<and> groqBudget (rateLimitState st) = groqReported headers t))
   \<and> (supplies headers cerebrasNames \<longrightarrow>
      (\<exists>st. stats (updateFromHeaders (recordRequests tr m reqs) (model_id m) cerebras headers t) (model_id m) = Some st
            \<and> cerebrasBudget (rateLimitState st) = cerebrasReported headers))"
proof (intro impI conjI)
  assume "reqs \<noteq> [] \<or> stats tr (model_id m) \<noteq> None"
  then obtain st0 where st0: "stats (recordRequests tr m reqs) (model_id m) = Some st0"
    using recordRequests_entry[of reqs tr m] by auto
  { assume "supplies headers groqNames"
    then show "\<exists>st. stats (updateFromHeaders (recordRequests tr m reqs) (model_id m) groq headers t) (model_id m) = Some st
            \<and> groqBudget (rateLimitState st) = groqReported headers t"
      by (simp add: updateFromHeaders_def st0 updateFromGroqHeaders_budget) }
  { assume "supplies headers cerebrasNames"
    then show "\<exists>st. stats (updateFromHeaders (recordRequests tr m reqs) (model_id m) cerebras headers t) (model_id m) = Some st
            \<and> cerebrasBudget (rateLimitState st) = cerebrasReported headers"
      by (simp add: updateFromHeaders_def st0 updateFromCerebrasHeaders_budget) }
qed

theorem reconcile_overwrites_decrements_witness:
  "demoRequests \<noteq> [] \<and> supplies fullGroqHeaders groqNames \<and> supplies fullCerebrasHeaders cerebrasNames
   \<and> (\<exists>st. stats (updateFromHeaders (recordRequests new_UsageTracker demoGroq demoRequests) ''g'' groq
                    fullGroqHeaders 2000) ''g'' = Some st
          \<and> groqBudget (rateLimitState st)
              = [Num 14370, Num 5972, Num 14400, Num 6000, Num 181560, Num 9660])
   \<and> (\<exists>st. stats (updateFromHeaders (recordRequests new_UsageTracker demoCerebras demoRequests) ''c'' cerebras
                    fullCerebrasHeaders 2000) ''c'' = Some st
          \<and> cerebrasBudget (rateLimitState st)
              = [Num 14399, Num 59000, Num 14400, Num 60000, Num (66023 / 2), Num (45 / 4)])"
proof -
  have a: "demoRequests \<noteq> []" by (simp add: demoRequests_def)
  have g: "supplies fullGroqHeaders groqNames" by code_simp
  have c: "supplies fullCerebrasHeaders cerebrasNames" by code_simp
  have rg: "groqReported fullGroqHeaders 2000
              = [Num 14370, Num 5972, Num 14400, Num 6000, Num 181560, Num 9660]" by code_simp
  have rc: "cerebrasReported fullCerebrasHeaders
              = [Num 14399, Num 59000, Num 14400, Num 60000, Num (66023 / 2), Num (45 / 4)]" by code_simp
  show ?thesis
    using reconcile_overwrites_decrements[of demoRequests new_UsageTracker demoGroq fullGroqHeaders 2000]
      reconcile_overwrites_decrements[of demoRequests new_UsageTracker demoCerebras fullCerebrasHeaders 2000]
    by (simp add: a g c rg rc demo_ids)
qed

section \<open>Optimistic decrements (C4)\<close>

lemma stateOf_clock: "stateOf tr m clk = stateOf tr m clk'"
  by (simp add: stateOf_def getStats_def Let_def newStats_def split: option.splits)

lemma stateOf_recordRequest:
  "stateOf (recordRequest tr m p toks clk) m clk' =
     (let s = stateOf tr m clk;
          a = (if js_gt (remainingRequestsDay s) (Num 0)
               then s\<lparr>remainingRequestsDay := js_sub (remainingRequestsDay s) (Num 1)\<rparr> else s)
      in if js_gt (remainingTokensMinute a) (Num 0)
         then a\<lparr>remainingTokensMinute := js_sub (remainingTokensMinute a) toks\<rparr> else a)"
  by (simp add: stateOf_def recordRequest_def getStats_def Let_def split: prod.splits)

lemma recordRequest_requests:
  "remainingRequestsDay (stateOf (recordRequest tr m p toks clk) m clk') =
     (if js_gt (remainingRequestsDay (stateOf tr m clk)) (Num 0)
      then js_sub (remainingRequestsDay (stateOf tr m clk)) (Num 1)
      else remainingRequestsDay (stateOf tr m clk))"
  by (simp add: stateOf_recordRequest Let_def)

lemma recordRequest_tokens:
  "remainingTokensMinute (stateOf (recordRequest tr m p toks clk) m clk') =
     (if js_gt (remainingTokensMinute (stateOf tr m clk)) (Num 0)
      then js_sub (remainingTokensMinute (stateOf tr m clk)) toks
      else remainingTokensMinute (stateOf tr m clk))"
  by (simp add: stateOf_recordRequest Let_def)

lemma nonnegInt_decrement:
  "nonnegInt x \<Longrightarrow> nonnegInt (if js_gt x (Num 0) then js_sub x (Num 1) else x)"
proof (cases x)
  case NaN
  then show ?thesis by (simp add: js_gt_def)
next
  case (Num a)
  assume "nonnegInt x"
  then have a: "0 \<le> a" "a = of_int \<lfloor>a\<rfloor>" using Num by simp_all
  show ?thesis
  proof (cases "0 < a")
    case True
    then have "0 < \<lfloor>a\<rfloor>" using a by linarith
    then have "1 \<le> a" using a by linarith
    moreover have "a - 1 = of_int \<lfloor>a - 1\<rfloor>" using a by simp
    ultimately show ?thesis using Num True by (simp add: js_gt_def)
  next
    case False
    then show ?thesis using Num a by (simp add: js_gt_def)
  qed
qed

lemma recordRequests_requests_nonneg:
  "nonnegInt (remainingRequestsDay (stateOf tr m clk)) \<Longrightarrow>
   nonnegInt (remainingRequestsDay (stateOf (recordRequests tr m reqs) m clk))"
proof (induction reqs arbitrary: tr)
  case Nil
  then show ?case by (simp add: recordRequests_def)
next
  case (Cons r reqs)
  obtain toks c where r: "r = (toks, c)" by (cases r)
  have "nonnegInt (remainingRequestsDay (stateOf (recordRequest tr m (model_provider m) toks c) m clk))"
    unfolding recordRequest_requests[of tr m _ toks c clk] stateOf_clock[of tr m c clk]
    by (rule nonnegInt_decrement[OF Cons.prems])
  from Cons.IH[OF this] show ?case by (simp add: recordRequests_def r)
qed

lemma token_step_bound:
  assumes "js_lt (Num (- b)) x" "js_le toks (Num b)"
  shows "js_lt (Num (- b)) (if js_gt x (Num 0) then js_sub x toks else x)"
  using assms by (cases x; cases toks) (auto simp: js_gt_def)

lemma recordRequests_tokens_bound:
  "list_all (\<lambda>(toks, c). js_le toks (Num b)) reqs \<Longrightarrow>
   js_lt (Num (- b)) (remainingTokensMinute (stateOf tr m clk)) \<Longrightarrow>
   js_lt (Num (- b)) (remainingTokensMinute (stateOf (recordRequests tr m reqs) m clk))"
proof (induction reqs arbitrary: tr)
  case Nil
  then show ?case by (simp add: recordRequests_def)
next
  case (Cons r reqs)
  obtain toks c where r: "r = (toks, c)" by (cases r)
  have le: "js_le toks (Num b)" and rest: "list_all (\<lambda>(toks, c). js_le toks (Num b)) reqs"
    using Cons.prems(1) by (simp_all add: r)
  have "js_lt (Num (- b)) (remainingTokensMinute (stateOf (recordRequest tr m (model_provider m) toks c) m clk))"
    unfolding recordRequest_tokens[of tr m _ toks c clk] stateOf_clock[of tr m c clk]
    by (rule token_step_bound[OF Cons.prems(2) le])
  from Cons.IH[OF rest this] show ?case by (simp add: recordRequests_def r)
qed

lemma exhausted_requests_groq:
  assumes "model_provider m = groq" "js_le (remainingRequestsDay (stateOf tr m clk)) (Num 0)"
  shows "(js_gt (num (resetRequestsAt (stateOf tr m clk))) (of_now (now clk)) \<longrightarrow>
            \<not> allowed (fst (canRequest tr m est clk)))
         \<and> (\<not> js_gt (num (resetRequestsAt (stateOf tr m clk))) (of_now (now clk)) \<longrightarrow>
            verdictOf (fst (canRequest tr m est clk)) \<noteq> Some DenyRequests)"
  using assms
  by (simp add: canRequest_fst allowed_canRequestGroq canRequestGroq_order admissionOrder_def stateOf_def)

lemma exhausted_requests_cerebras:
  assumes "model_provider m = cerebras" "js_le (remainingRequestsDay (stateOf tr m clk)) (Num 0)"
    and "js_gt (num (resetRequestsDaySeconds (stateOf tr m clk))) (Num 0)
           = resetAhead (lastUpdated (stateOf tr m clk)) (num (resetRequestsDaySeconds (stateOf tr m clk))) (now clk)"
  shows "(resetAhead (lastUpdated (stateOf tr m clk)) (num (resetRequestsDaySeconds (stateOf tr m clk))) (now clk)
            \<longrightarrow> \<not> allowed (fst (canRequest tr m est clk)))
         \<and> (\<not> resetAhead (lastUpdated (stateOf tr m clk)) (num (resetRequestsDaySeconds (stateOf tr m clk))) (now clk)
            \<longrightarrow> verdictOf (fst (canRequest tr m est clk)) \<noteq> Some DenyRequests)"
proof -
  have "\<not> allowed (fst (canRequest tr m est clk))"
    if "js_gt (num (resetRequestsDaySeconds (stateOf tr m clk))) (Num 0)"
    using that assms(1,2) by (simp add: canRequest_fst allowed_canRequestCerebras stateOf_def)
  moreover have "verdictOf (fst (canRequest tr m est clk)) \<noteq> Some DenyRequests"
    if "\<not> js_gt (num (resetRequestsDaySeconds (stateOf tr m clk))) (Num 0)"
    using that assms(1)
    by (simp add: canRequest_fst canRequestCerebras_order admissionOrder_def stateOf_def)
  ultimately show ?thesis using assms(3) by simp
qed

text \<open>
  C4, as stated, fails. On a fresh Groq model with one request a day and five tokens a
  minute, one recorded request of 100 tokens leaves the request counter at 0 and the
  token counter at \<open>-95\<close> (it is not clamped), and the admission check for another 100
  tokens allows: no reset is pending, so the remainders at or below zero do not deny.
\<close>

theorem recordRequest_not_clamped_counterexample:
  "remainingRequestsDay (stateOf (recordRequest new_UsageTracker demoGroq groq (Num 100) (demoClock 1000))
      demoGroq (demoClock 1000)) = Num 0
   \<and> remainingTokensMinute (stateOf (recordRequest new_UsageTracker demoGroq groq (Num 100) (demoClock 1000))
      demoGroq (demoClock 1000)) = Num (- 95)
   \<and> allowed (fst (canRequest (recordRequest new_UsageTracker demoGroq groq (Num 100) (demoClock 1000))
      demoGroq (Num 100) (demoClock 1000)))"
proof -
  have s: "stateOf new_UsageTracker demoGroq (demoClock 1000) = createGroqState (demoLimits 1 5)"
    by (simp add: stateOf_def getStats_def new_UsageTracker_def newStats_def demoGroq_def Let_def)
  have s': "stateOf (recordRequest new_UsageTracker demoGroq groq (Num 100) (demoClock 1000)) demoGroq (demoClock 1000)
      = (createGroqState (demoLimits 1 5))\<lparr>remainingRequestsDay := Num 0, remainingTokensMinute := Num (- 95)\<rparr>"
    by (simp add: stateOf_recordRequest s createGroqState_def demoLimits_def js_gt_def)
  show ?thesis
    using s'
    by (simp add: canRequest_fst demo_ids allowed_canRequestGroq cooldownActive_def
        stateOf_def createGroqState_def js_gt_def demo_clock)
qed

text \<open>
  C4, amended. \<open>recordRequest\<close> lowers the request counter by 1 and the token counter by
  the estimated cost, each only while the counter is above zero. So a request counter that
  is a natural number is never negative after any run of recordings, and the token counter
  stays above \<open>-b\<close> when it started there and no estimate exceeds \<open>b\<close>. A request counter
  at or below zero makes the admission check deny while its reset is still ahead, and once
  the reset has passed the check no longer denies on the request budget: for Groq by the
  stored reset instant; for Cerebras by the instant \<open>lastUpdated + 1000 * seconds\<close>, as
  long as the stored seconds agree with the clock (they are positive exactly when that
  instant is still ahead).
\<close>

theorem recordRequest_guarded_decrement:
  "remainingRequestsDay (stateOf (recordRequest tr m p toks clk) m clk) =
     (if js_gt (remainingRequestsDay (stateOf tr m clk)) (Num 0)
      then js_sub (remainingRequestsDay (stateOf tr m clk)) (Num 1)
      else remainingRequestsDay (stateOf tr m clk))
   \<and> remainingTokensMinute (stateOf (recordRequest tr m p toks clk) m clk) =
     (if js_gt (remainingTokensMinute (stateOf tr m clk)) (Num 0)
      then js_sub (remainingTokensMinute (stateOf tr m clk)) toks
      else remainingTokensMinute (stateOf tr m clk))
   \<and> (nonnegInt (remainingRequestsDay (stateOf tr m clk)) \<longrightarrow>
        nonnegInt (remainingRequestsDay (stateOf (recordRequests tr m reqs) m clk)))
   \<and> (list_all (\<lambda>(toks, c). js_le toks (Num b)) reqs \<and>
        js_lt (Num (- b)) (remainingTokensMinute (stateOf tr m clk)) \<longrightarrow>
        js_lt (Num (- b)) (remainingTokensMinute (stateOf (recordRequests tr m reqs) m clk)))
   \<and> (model_provider m = groq \<and> js_le (remainingRequestsDay (stateOf tr m clk)) (Num 0) \<longrightarrow>
        (js_gt (num (resetRequestsAt (stateOf tr m clk))) (of_now (now clk)) \<longrightarrow>
           \<not> allowed (fst (canRequest tr m est clk)))
        \<and> (\<not> js_gt (num (resetRequestsAt (stateOf tr m clk))) (of_now (now clk)) \<longrightarrow>
           verdictOf (fst (canRequest tr m est clk)) \<noteq> Some DenyRequests))
   \<and> (model_provider m = cerebras \<and> js_le (remainingRequestsDay (stateOf tr m clk)) (Num 0) \<and>
        js_gt (num (resetRequestsDaySeconds (stateOf tr m clk))) (Num 0)
          = resetAhead (lastUpdated (stateOf tr m clk)) (num (resetRequestsDaySeconds (stateOf tr m clk))) (now clk)
        \<longrightarrow>
        (resetAhead (lastUpdated (stateOf tr m clk)) (num (resetRequestsDaySeconds (stateOf tr m clk))) (now clk)
           \<longrightarrow> \<not> allowed (fst (canRequest tr m est clk)))
        \<and> (\<not> resetAhead (lastUpdated (stateOf tr m clk)) (num (resetRequestsDaySeconds (stateOf tr m clk))) (now clk)
           \<longrightarrow> verdictOf (fst (canRequest tr m est clk)) \<noteq> Some DenyRequests))"
proof -
  have a: "remainingRequestsDay (stateOf (recordRequest tr m p toks clk) m clk) =
     (if js_gt (remainingRequestsDay (stateOf tr m clk)) (Num 0)
      then js_sub (remainingRequestsDay (stateOf tr m clk)) (Num 1)
      else remainingRequestsDay (stateOf tr m clk))"
    by (rule recordRequest_requests)
  have b: "remainingTokensMinute (stateOf (recordRequest tr m p toks clk) m clk) =
     (if js_gt (remainingTokensMinute (stateOf tr m clk)) (Num 0)
      then js_sub (remainingTokensMinute (stateOf tr m clk)) toks
      else remainingTokensMinute (stateOf tr m clk))"
    by (rule recordRequest_tokens)
  show ?thesis
    using recordRequests_requests_nonneg[of tr m clk reqs] recordRequests_tokens_bound[of b reqs tr m clk]
      exhausted_requests_groq[of m tr clk est] exhausted_requests_cerebras[of m tr clk est]
    by (intro conjI a b) blast+
qed

theorem recordRequest_guarded_decrement_witness:
  "nonnegInt (remainingRequestsDay (stateOf (exhaustedTracker demoGroq) demoGroq (demoClock 2000)))
   \<and> nonnegInt (remainingRequestsDay
        (stateOf (recordRequests (exhaustedTracker demoGroq) demoGroq demoRequests) demoGroq (demoClock 2000)))
   \<and> list_all (\<lambda>(toks, c). js_le toks (Num 3)) demoRequests
   \<and> js_lt (Num (- 3)) (remainingTokensMinute (stateOf (exhaustedTracker demoGroq) demoGroq (demoClock 2000)))
   \<and> js_lt (Num (- 3)) (remainingTokensMinute
        (stateOf (recordRequests (exhaustedTracker demoGroq) demoGroq demoRequests) demoGroq (demoClock 2000)))
   \<and> js_le (remainingRequestsDay (stateOf (exhaustedTracker demoGroq) demoGroq (demoClock 2000))) (Num 0)
   \<and> js_gt (num (resetRequestsAt (stateOf (exhaustedTracker demoGroq) demoGroq (demoClock 2000)))) (Num 2000)
   \<and> \<not> allowed (fst (canRequest (exhaustedTracker demoGroq) demoGroq (Num 0) (demoClock 2000)))
   \<and> js_le (remainingRequestsDay (stateOf (exhaustedTracker demoGroq) demoGroq (demoClock 62000))) (Num 0)
   \<and> \<not> js_gt (num (resetRequestsAt (stateOf (exhaustedTracker demoGroq) demoGroq (demoClock 62000)))) (Num 62000)
   \<and> verdictOf (fst (canRequest (exhaustedTracker demoGroq) demoGroq (Num 0) (demoClock 62000)))
       \<noteq> Some DenyRequests
   \<and> js_le (remainingRequestsDay (stateOf (exhaustedTracker demoCerebras) demoCerebras (demoClock 1000))) (Num 0)
   \<and> js_gt (num (resetRequestsDaySeconds (stateOf (exhaustedTracker demoCerebras) demoCerebras (demoClock 1000)))) (Num 0)
   \<and> resetAhead (lastUpdated (stateOf (exhaustedTracker demoCerebras) demoCerebras (demoClock 1000)))
        (num (resetRequestsDaySeconds (stateOf (exhaustedTracker demoCerebras) demoCerebras (demoClock 1000)))) 1000
   \<and> \<not> allowed (fst (canRequest (exhaustedTracker demoCerebras) demoCerebras (Num 0) (demoClock 1000)))
   \<and> js_le (remainingRequestsDay
        (stateOf (recordRequest new_UsageTracker demoCerebras cerebras (Num 0) (demoClock 1000))
           demoCerebras (demoClock 1000))) (Num 0)
   \<and> \<not> js_gt (num (resetRequestsDaySeconds
        (stateOf (recordRequest new_UsageTracker demoCerebras cerebras (Num 0) (demoClock 1000))
           demoCerebras (demoClock 1000)))) (Num 0)
   \<and> \<not> resetAhead
        (lastUpdated (stateOf (recordRequest new_UsageTracker demoCerebras cerebras (Num 0) (demoClock 1000))
           demoCerebras (demoClock 1000)))
        (num (resetRequestsDaySeconds
           (stateOf (recordRequest new_UsageTracker demoCerebras cerebras (Num 0) (demoClock 1000))
              demoCerebras (demoClock 1000)))) 1000
   \<and> verdictOf (fst (canRequest (recordRequest new_UsageTracker demoCerebras cerebras (Num 0) (demoClock 1000))
        demoCerebras (Num 0) (demoClock 1000))) \<noteq> Some DenyRequests"
proof -
  have g: "stateOf (exhaustedTracker demoGroq) demoGroq clk
           = rateLimitState (the (stats (exhaustedTracker demoGroq) ''g''))" for clk
    using stateOf_entry[of "exhaustedTracker demoGroq" demoGroq] by (simp add: demo_ids exhausted_groq_entry)
  have c: "stateOf (exhaustedTracker demoCerebras) demoCerebras (demoClock 1000)
           = rateLimitState (the (stats (exhaustedTracker demoCerebras) ''c''))"
    using stateOf_entry[of "exhaustedTracker demoCerebras" demoCerebras] by (simp add: demo_ids exhausted_cerebras_entry)
  have f0: "stateOf new_UsageTracker demoCerebras (demoClock 1000) = createCerebrasState (demoLimits 1 5)"
    by (simp add: stateOf_def getStats_def new_UsageTracker_def newStats_def demoCerebras_def Let_def)
  have f: "stateOf (recordRequest new_UsageTracker demoCerebras cerebras (Num 0) (demoClock 1000))
             demoCerebras (demoClock 1000)
           = (createCerebrasState (demoLimits 1 5))\<lparr>remainingRequestsDay := Num 0, remainingTokensMinute := Num 5\<rparr>"
    by (simp add: stateOf_recordRequest f0 createCerebrasState_def demoLimits_def js_gt_def)
  have l: "list_all (\<lambda>(toks, c). js_le toks (Num 3)) demoRequests"
    by (simp add: demoRequests_def)
  show ?thesis
    using recordRequest_guarded_decrement[of "exhaustedTracker demoGroq" demoGroq groq "Num 0"
        "demoClock 2000" demoRequests 3 "Num 0"]
      recordRequest_guarded_decrement[of "exhaustedTracker demoGroq" demoGroq groq "Num 0"
        "demoClock 62000" demoRequests 3 "Num 0"]
      recordRequest_guarded_decrement[of "exhaustedTracker demoCerebras" demoCerebras cerebras "Num 0"
        "demoClock 1000" demoRequests 3 "Num 0"]
      recordRequest_guarded_decrement[of "recordRequest new_UsageTracker demoCerebras cerebras (Num 0) (demoClock 1000)"
        demoCerebras cerebras "Num 0" "demoClock 1000" demoRequests 3 "Num 0"]
    by (simp add: g c f l demo_ids exhausted_groq_entry exhausted_cerebras_entry js_gt_def
        resetAhead_def demo_clock createCerebrasState_def)
qed

section \<open>Fallback exhaustion (C5)\<close>

lemma getStats_again:
  "fst (getStats (snd (getStats tr m clk)) m clk) = fst (getStats tr m clk)"
  by (simp add: getStats_def Let_def)

lemma getStats_other_model:
  "model_id m \<noteq> model_id m0 \<Longrightarrow> fst (getStats (snd (getStats tr m0 clk)) m clk) = fst (getStats tr m clk)"
  by (simp add: getStats_def Let_def)

lemma canRequest_stable:
  assumes "distinct (map model_id ms)" "m0 \<in> set ms" "m \<in> set ms"
  shows "fst (canRequest (snd (canRequest tr m0 est0 clk)) m est clk) = fst (canRequest tr m est clk)"
proof (cases "model_id m = model_id m0")
  case True
  then have "m = m0"
    using assms by (meson distinct_map inj_on_eq_iff)
  then show ?thesis
    by (simp add: canRequest_fst canRequest_snd getStats_again)
next
  case False
  then show ?thesis
    by (simp add: canRequest_fst canRequest_snd getStats_other_model)
qed

lemma loop_all_denied_round_robin:
  assumes "distinct (map model_id ms)"
    and "\<forall>m\<in>set ms. \<not> allowed (fst (canRequest tr m est clk))"
  shows "models mg = ms \<Longrightarrow> strategy mg = RoundRobin \<Longrightarrow> autoFallback mg \<Longrightarrow>
         currentIndex mg < length ms \<Longrightarrow>
         \<forall>m\<in>set ms. fst (canRequest tr' m est clk) = fst (canRequest tr m est clk) \<Longrightarrow>
         \<exists>mg' tr''. getNextModel_loop n rnd est clk mg tr' skipped =
              (Inl (AllRateLimited (skipped @
                 map (\<lambda>i. skipEntry tr est clk (ms ! ((currentIndex mg + i) mod length ms))) [0..<n])),
               mg', tr'')
            \<and> currentIndex mg' = (currentIndex mg + n) mod length ms"
proof (induction n arbitrary: mg tr' skipped rnd)
  case 0
  then show ?case by simp
next
  case (Suc n)
  let ?c = "currentIndex mg" and ?K = "length ms"
  let ?m = "ms ! ?c"
  let ?mg1 = "mg\<lparr>currentIndex := (?c + 1) mod ?K\<rparr>"
  have K: "0 < ?K" using Suc.prems(4) by (cases ms) simp_all
  have sel: "selectByStrategy mg (rnd 0) = (Some ?m, ?mg1)"
    using Suc.prems by (simp add: selectByStrategy_def elemAt_def)
  have m: "?m \<in> set ms" using Suc.prems(4) by simp
  obtain check tr1 where c: "canRequest tr' ?m est clk = (check, tr1)"
    by (cases "canRequest tr' ?m est clk")
  have check: "check = fst (canRequest tr ?m est clk)"
    using Suc.prems(5) m c by (metis fst_conv)
  have denied: "\<not> allowed check" using assms(2) m check by simp
  have stable: "\<forall>x\<in>set ms. fst (canRequest tr1 x est clk) = fst (canRequest tr x est clk)"
  proof
    fix x assume x: "x \<in> set ms"
    have "fst (canRequest (snd (canRequest tr' ?m est clk)) x est clk) = fst (canRequest tr' x est clk)"
      by (rule canRequest_stable[OF assms(1) m x])
    then show "fst (canRequest tr1 x est clk) = fst (canRequest tr x est clk)"
      using Suc.prems(5) x c by simp
  qed
  let ?e = "[Str (providerText (model_provider ?m)), Str ''/'', Str (model_id ?m), Str '': ''] @
            (case reason check of None \<Rightarrow> [Str ''undefined''] | Some t \<Rightarrow> t)"
  have e: "?e = skipEntry tr est clk ?m" by (simp add: skipEntry_def check)
  have c1: "currentIndex ?mg1 < ?K" using K by simp
  obtain mg' tr'' where
    r: "getNextModel_loop n (\<lambda>i. rnd (Suc i)) est clk ?mg1 tr1 (skipped @ [?e]) =
          (Inl (AllRateLimited ((skipped @ [?e]) @
             map (\<lambda>i. skipEntry tr est clk (ms ! ((currentIndex ?mg1 + i) mod ?K))) [0..<n])), mg', tr'')"
    and cur: "currentIndex mg' = (currentIndex ?mg1 + n) mod ?K"
    using Suc.IH[of ?mg1 tr1 "\<lambda>i. rnd (Suc i)" "skipped @ [?e]"] Suc.prems(1,2,3) c1 stable by auto
  have idx: "(currentIndex ?mg1 + i) mod ?K = (?c + Suc i) mod ?K" for i
    by (simp add: mod_add_left_eq)
  have lst: "map (\<lambda>i. skipEntry tr est clk (ms ! ((?c + i) mod ?K))) [0..<Suc n]
             = ?e # map (\<lambda>i. skipEntry tr est clk (ms ! ((currentIndex ?mg1 + i) mod ?K))) [0..<n]"
    unfolding idx e using Suc.prems(4) by (simp only: map_upt_Suc) simp
  have "getNextModel_loop (Suc n) rnd est clk mg tr' skipped =
          (Inl (AllRateLimited (skipped @
             map (\<lambda>i. skipEntry tr est clk (ms ! ((?c + i) mod ?K))) [0..<Suc n])), mg', tr'')"
    unfolding lst using sel c denied Suc.prems(3) r by simp
  moreover have "currentIndex mg' = (?c + Suc n) mod ?K"
    using cur idx[of n] by simp
  ultimately show ?case by blast
qed

lemma denied_both:
  "\<not> allowed (fst (canRequest exhaustedBoth demoGroq est (demoClock 2000)))"
  "\<not> allowed (fst (canRequest exhaustedBoth demoCerebras est (demoClock 2000)))"
proof -
  have g: "stats exhaustedBoth ''g'' = stats (exhaustedTracker demoGroq) ''g''"
    by (simp add: exhaustedBoth_def updateFromHeaders_def recordRequest_def canRequest_snd
        getStats_def Let_def demo_ids split: option.splits prod.splits)
  have c: "map_option rateLimitState (stats exhaustedBoth ''c'')
             = map_option rateLimitState (stats (exhaustedTracker demoCerebras) ''c'')"
    unfolding exhausted_cerebras_entry exhaustedBoth_def by code_simp
  have sg: "stateOf exhaustedBoth demoGroq (demoClock 2000)
              = rateLimitState (the (stats (exhaustedTracker demoGroq) ''g''))"
    using stateOf_entry[of exhaustedBoth demoGroq] g by (simp add: demo_ids exhausted_groq_entry)
  have sc: "stateOf exhaustedBoth demoCerebras (demoClock 2000)
              = rateLimitState (the (stats (exhaustedTracker demoCerebras) ''c''))"
    using stateOf_entry[of exhaustedBoth demoCerebras] c
    by (cases "stats exhaustedBoth ''c''") (simp_all add: demo_ids exhausted_cerebras_entry)
  show "\<not> allowed (fst (canRequest exhaustedBoth demoGroq est (demoClock 2000)))"
    using sg by (simp add: canRequest_fst demo_ids allowed_canRequestGroq stateOf_def
        exhausted_groq_entry js_gt_def demo_clock)
  show "\<not> allowed (fst (canRequest exhaustedBoth demoCerebras est (demoClock 2000)))"
    using sc by (simp add: canRequest_fst demo_ids allowed_canRequestCerebras stateOf_def
        exhausted_cerebras_entry js_gt_def)
qed

text \<open>Round-robin, the sibling strategy, does visit every candidate: with every
  candidate denied its failure lists the candidates in configured order from the cursor
  on, one entry for each, and the cursor is back where it was.\<close>

lemma round_robin_fallback_exhaustion:
  assumes "strategy mg = RoundRobin" "autoFallback mg" "distinct (map model_id (models mg))"
    and "currentIndex mg < length (models mg)"
    and "deniesAll tr (models mg) (estimateTokens messages) clk"
  shows "fst (getNextModel mg tr rnd messages clk) =
           Inl (AllRateLimited (map (skipEntry tr (estimateTokens messages) clk)
                                    (rotate (currentIndex mg) (models mg))))
         \<and> currentIndex (fst (snd (getNextModel mg tr rnd messages clk))) = currentIndex mg"
proof -
  let ?ms = "models mg" and ?est = "estimateTokens messages"
  have den: "\<forall>m\<in>set ?ms. \<not> allowed (fst (canRequest tr m ?est clk))"
    using assms(5) by (simp add: deniesAll_def list_all_iff)
  obtain mg' tr'' where
    l: "getNextModel_loop (length ?ms) rnd ?est clk mg tr [] =
          (Inl (AllRateLimited ([] @
             map (\<lambda>i. skipEntry tr ?est clk (?ms ! ((currentIndex mg + i) mod length ?ms)))
               [0..<length ?ms])), mg', tr'')"
    and c: "currentIndex mg' = (currentIndex mg + length ?ms) mod length ?ms"
    using loop_all_denied_round_robin[OF assms(3) den, of mg tr "length ?ms" rnd "[]"] assms(1,2,4)
    by auto
  have "map (\<lambda>i. skipEntry tr ?est clk (?ms ! ((currentIndex mg + i) mod length ?ms))) [0..<length ?ms]
        = map (skipEntry tr ?est clk) (rotate (currentIndex mg) ?ms)"
    using rotate_as_map[OF assms(4), symmetric] by (simp add: comp_def)
  then show ?thesis
    using l c assms(4) by (simp add: getNextModel_def)
qed

text \<open>
  C5. With auto-fallback on and every candidate denied, the failure is to list one entry
  for each candidate, each with that candidate's reason. Under the least-used strategy a
  rejection leaves the usage counts as they were, so every attempt selects the same
  candidate. With two candidates, both denied, the list of the failure holds the first
  candidate twice and the second not at all. With the first candidate exhausted and the
  second free, the call fails in the same way and never tries the second, which
  round-robin on the same tracker returns.
\<close>

theorem least_used_fallback_repeats_candidate:
  "deniesAll exhaustedBoth (models (demoManager LeastUsed)) (estimateTokens []) (demoClock 2000)
   \<and> fst (getNextModel (demoManager LeastUsed) exhaustedBoth (\<lambda>i. 0) [] (demoClock 2000)) =
       Inl (AllRateLimited
         [[Str ''groq'', Str ''/'', Str ''g'', Str '': '',
           Str ''Daily requests exhausted: Reset in '', N (Num 59), Str ''s''],
          [Str ''groq'', Str ''/'', Str ''g'', Str '': '',
           Str ''Daily requests exhausted: Reset in '', N (Num 59), Str ''s'']])
   \<and> allowed (fst (canRequest (exhaustedTracker demoGroq) demoCerebras (estimateTokens []) (demoClock 2000)))
   \<and> fst (getNextModel (demoManager LeastUsed) (exhaustedTracker demoGroq) (\<lambda>i. 0) [] (demoClock 2000)) =
       Inl (AllRateLimited
         [[Str ''groq'', Str ''/'', Str ''g'', Str '': '',
           Str ''Daily requests exhausted: Reset in '', N (Num 59), Str ''s''],
          [Str ''groq'', Str ''/'', Str ''g'', Str '': '',
           Str ''Daily requests exhausted: Reset in '', N (Num 59), Str ''s'']])
   \<and> fst (getNextModel (demoManager RoundRobin) (exhaustedTracker demoGroq) (\<lambda>i. 0) [] (demoClock 2000)) =
       Inr (demoCerebras,
         [[Str ''groq'', Str ''/'', Str ''g'', Str '': '',
           Str ''Daily requests exhausted: Reset in '', N (Num 59), Str ''s'']])"
proof -
  have a: "fst (getNextModel (demoManager LeastUsed) exhaustedBoth (\<lambda>i. 0) [] (demoClock 2000)) =
       Inl (AllRateLimited
         [[Str ''groq'', Str ''/'', Str ''g'', Str '': '',
           Str ''Daily requests exhausted: Reset in '', N (Num 59), Str ''s''],
          [Str ''groq'', Str ''/'', Str ''g'', Str '': '',
           Str ''Daily requests exhausted: Reset in '', N (Num 59), Str ''s'']])"
    by code_simp
  have b: "allowed (fst (canRequest (exhaustedTracker demoGroq) demoCerebras (estimateTokens []) (demoClock 2000)))"
    by code_simp
  have c: "fst (getNextModel (demoManager LeastUsed) (exhaustedTracker demoGroq) (\<lambda>i. 0) [] (demoClock 2000)) =
       Inl (AllRateLimited
         [[Str ''groq'', Str ''/'', Str ''g'', Str '': '',
           Str ''Daily requests exhausted: Reset in '', N (Num 59), Str ''s''],
          [Str ''groq'', Str ''/'', Str ''g'', Str '': '',
           Str ''Daily requests exhausted: Reset in '', N (Num 59), Str ''s'']])"
    by code_simp
  have d: "fst (getNextModel (demoManager RoundRobin) (exhaustedTracker demoGroq) (\<lambda>i. 0) [] (demoClock 2000)) =
       Inr (demoCerebras,
         [[Str ''groq'', Str ''/'', Str ''g'', Str '': '',
           Str ''Daily requests exhausted: Reset in '', N (Num 59), Str ''s'']])"
    by code_simp
  show ?thesis
    using a b c d by (simp add: deniesAll_def demoManager_def denied_both)
qed

section \<open>Round-robin fairness (C6)\<close>

lemma new_ModelManager_fresh:
  "new_ModelManager providers options = Inr mg \<Longrightarrow>
   currentIndex mg = 0 \<and> models mg \<noteq> [] \<and> usageCount mg = Map.empty
   \<and> (opt_strategy options = None \<longrightarrow> strategy mg = RoundRobin)"
  by (auto simp: new_ModelManager_def Let_def split: if_splits)

lemma getNextModel_round_robin_admitted:
  assumes "strategy mg = RoundRobin" "currentIndex mg < length (models mg)"
    and "list_all (\<lambda>m. allowed (fst (canRequest tr m (estimateTokens messages) clk))) (models mg)"
  shows "\<exists>mg' tr'. getNextModel mg tr rnd messages clk =
            (Inr (models mg ! currentIndex mg, []), mg', tr')
          \<and> models mg' = models mg \<and> strategy mg' = RoundRobin
          \<and> currentIndex mg' = (currentIndex mg + 1) mod length (models mg)"
proof -
  obtain n where n: "length (models mg) = Suc n"
    using assms(2) by (cases "length (models mg)") simp_all
  have "models mg ! currentIndex mg \<in> set (models mg)" using assms(2) by simp
  then have ok: "allowed (fst (canRequest tr (models mg ! currentIndex mg) (estimateTokens messages) clk))"
    using assms(3) by (simp add: list_all_iff)
  show ?thesis
    using assms(1,2) ok
    by (simp add: getNextModel_def n selectByStrategy_def elemAt_def split_beta Let_def)
qed

lemma getNextModels_round_robin:
  "strategy mg = RoundRobin \<Longrightarrow> currentIndex mg < length (models mg) \<Longrightarrow>
   admitsAll (models mg) calls \<Longrightarrow>
   fst (getNextModels mg rnd calls) =
     map (\<lambda>i. Inr (models mg ! ((currentIndex mg + i) mod length (models mg)), [])) [0..<length calls]
   \<and> currentIndex (snd (getNextModels mg rnd calls)) =
       (currentIndex mg + length calls) mod length (models mg)"
proof (induction calls arbitrary: mg)
  case Nil
  then show ?case by simp
next
  case (Cons call calls)
  obtain tr messages clk where call: "call = (tr, messages, clk)" by (cases call)
  let ?K = "length (models mg)" and ?c = "currentIndex mg"
  have adm: "list_all (\<lambda>m. allowed (fst (canRequest tr m (estimateTokens messages) clk))) (models mg)"
    and rest: "admitsAll (models mg) calls"
    using Cons.prems(3) by (simp_all add: admitsAll_def call)
  obtain mg' tr' where
    one: "getNextModel mg tr rnd messages clk = (Inr (models mg ! ?c, []), mg', tr')"
    and mg': "models mg' = models mg" "strategy mg' = RoundRobin" "currentIndex mg' = (?c + 1) mod ?K"
    using getNextModel_round_robin_admitted[OF Cons.prems(1,2) adm] by blast
  have K: "0 < ?K" using Cons.prems(2) by (cases "models mg") simp_all
  have c': "currentIndex mg' < length (models mg')" using mg' K by simp
  have ih: "fst (getNextModels mg' rnd calls) =
              map (\<lambda>i. Inr (models mg ! ((currentIndex mg' + i) mod ?K), [])) [0..<length calls]
            \<and> currentIndex (snd (getNextModels mg' rnd calls)) = (currentIndex mg' + length calls) mod ?K"
    using Cons.IH[OF mg'(2) c'] rest mg'(1) by simp
  have idx: "(currentIndex mg' + i) mod ?K = (?c + Suc i) mod ?K" for i
    by (simp add: mg'(3) mod_add_left_eq)
  have F: "fst (getNextModels mg rnd (call # calls)) =
          Inr (models mg ! ?c, []) #
          map (\<lambda>i. Inr (models mg ! ((?c + Suc i) mod ?K), [])) [0..<length calls]"
    using ih by (simp add: call one split_beta idx)
  have L: "map (\<lambda>i. Inr (models mg ! ((?c + i) mod ?K), [])) [0..<length (call # calls)] =
          Inr (models mg ! ((?c + 0) mod ?K), []) #
          map (\<lambda>i. Inr (models mg ! ((?c + Suc i) mod ?K), [])) [0..<length calls]"
    unfolding length_Cons by (rule map_upt_Suc)
  have c0: "(?c + 0) mod ?K = ?c" using Cons.prems(2) by simp
  have S: "currentIndex (snd (getNextModels mg rnd (call # calls))) = (?c + length (call # calls)) mod ?K"
    using ih idx[of "length calls"] by (simp add: call one split_beta)
  show ?case unfolding F L c0 by (rule conjI[OF refl S])
qed

lemma mset_rotate: "mset (rotate n xs) = mset xs"
proof -
  let ?k = "n mod length xs"
  have "mset (rotate n xs) = mset (drop ?k xs) + mset (take ?k xs)"
    by (simp add: rotate_drop_take)
  also have "\<dots> = mset (take ?k xs @ drop ?k xs)"
    by (simp only: mset_append add.commute)
  finally show ?thesis by simp
qed

lemma admittedModels_map: "admittedModels (map (\<lambda>m. Inr (m, [])) ms) = ms"
  by (induction ms) (simp_all add: admittedModels_def)

text \<open>
  C6. Under round-robin, with every admission check of every call allowing, \<open>K\<close>
  consecutive calls on a manager over \<open>K\<close> candidates return the candidates in configured
  order, starting at the cursor and wrapping around, none skipped: each candidate exactly
  once. A manager as constructed has its cursor at 0, and the calls return the configured
  list itself. After the \<open>K\<close> calls the cursor is where it was.
\<close>

theorem round_robin_fairness:
  assumes "strategy mg = RoundRobin" "currentIndex mg < length (models mg)"
    and "length calls = length (models mg)" "admitsAll (models mg) calls"
  shows "fst (getNextModels mg rnd calls) = map (\<lambda>m. Inr (m, [])) (rotate (currentIndex mg) (models mg))
         \<and> mset (admittedModels (fst (getNextModels mg rnd calls))) = mset (models mg)
         \<and> (currentIndex mg = 0 \<longrightarrow> admittedModels (fst (getNextModels mg rnd calls)) = models mg)
         \<and> currentIndex (snd (getNextModels mg rnd calls)) = currentIndex mg"
proof -
  have "map (\<lambda>i. Inr (models mg ! ((currentIndex mg + i) mod length (models mg)), [])) [0..<length calls]
        = map (\<lambda>m. Inr (m, [])) (map (\<lambda>i. models mg ! ((currentIndex mg + i) mod length (models mg)))
            [0..<length (models mg)])"
    by (simp add: assms(3) comp_def)
  then have r: "fst (getNextModels mg rnd calls) = map (\<lambda>m. Inr (m, [])) (rotate (currentIndex mg) (models mg))"
    using getNextModels_round_robin[OF assms(1,2,4), of rnd] rotate_as_map[OF assms(2)] by simp
  have c: "currentIndex (snd (getNextModels mg rnd calls)) = currentIndex mg"
    using getNextModels_round_robin[OF assms(1,2,4), of rnd] assms(2,3) by simp
  show ?thesis
    using c by (simp add: r admittedModels_map mset_rotate)
qed

theorem round_robin_fairness_witness:
  "strategy (demoManager RoundRobin) = RoundRobin
   \<and> currentIndex (demoManager RoundRobin) < length (models (demoManager RoundRobin))
   \<and> length demoCalls = length (models (demoManager RoundRobin))
   \<and> admitsAll (models (demoManager RoundRobin)) demoCalls
   \<and> fst (getNextModels (demoManager RoundRobin) (\<lambda>i. 0) demoCalls)
       = [Inr (demoGroq, []), Inr (demoCerebras, [])]
   \<and> admittedModels (fst (getNextModels (demoManager RoundRobin) (\<lambda>i. 0) demoCalls))
       = models (demoManager RoundRobin)"
proof -
  have a: "admitsAll (models (demoManager RoundRobin)) demoCalls"
    by code_simp
  have m: "models (demoManager RoundRobin) = [demoGroq, demoCerebras]"
    "currentIndex (demoManager RoundRobin) = 0" "strategy (demoManager RoundRobin) = RoundRobin"
    by (simp_all add: demoManager_def)
  have l: "length demoCalls = 2" by (simp add: demoCalls_def)
  show ?thesis
    using round_robin_fairness[of "demoManager RoundRobin" demoCalls "\<lambda>i. 0"] a
    by (simp add: m l admittedModels_def)
qed

section \<open>Token estimate (C7)\<close>





section \<open>Reconciliation with missing or malformed headers (C8)\<close>

lemma updateFromGroqHeaders_absent:
  "(\<not> truthy_str (headers ''x-ratelimit-remaining-requests'') \<longrightarrow>
      remainingRequestsDay (updateFromGroqHeaders s headers t) = remainingRequestsDay s)
   \<and> (\<not> truthy_str (headers ''x-ratelimit-remaining-tokens'') \<longrightarrow>
      remainingTokensMinute (updateFromGroqHeaders s headers t) = remainingTokensMinute s)
   \<and> (\<not> truthy_str (headers ''x-ratelimit-limit-requests'') \<longrightarrow>
      limitRequestsDay (updateFromGroqHeaders s headers t) = limitRequestsDay s)
   \<and> (\<not> truthy_str (headers ''x-ratelimit-limit-tokens'') \<longrightarrow>
      limitTokensMinute (updateFromGroqHeaders s headers t) = limitTokensMinute s)
   \<and> (\<not> truthy_str (headers ''x-ratelimit-reset-requests'') \<longrightarrow>
      resetRequestsAt (updateFromGroqHeaders s headers t) = resetRequestsAt s)
   \<and> (\<not> truthy_str (headers ''x-ratelimit-reset-tokens'') \<longrightarrow>
      resetTokensAt (updateFromGroqHeaders s headers t) = resetTokensAt s)
   \<and> (\<not> truthy_str (headers ''retry-after'') \<longrightarrow>
      retryAfter (updateFromGroqHeaders s headers t) = retryAfter s)"
  by (simp add: updateFromGroqHeaders_fields)

lemma updateFromCerebrasHeaders_absent:
  "(\<not> truthy_str (headers ''x-ratelimit-remaining-requests-day'') \<longrightarrow>
      remainingRequestsDay (updateFromCerebrasHeaders s headers t) = remainingRequestsDay s)
   \<and> (\<not> truthy_str (headers ''x-ratelimit-remaining-tokens-minute'') \<longrightarrow>
      remainingTokensMinute (updateFromCerebrasHeaders s headers t) = remainingTokensMinute s)
   \<and> (\<not> truthy_str (headers ''x-ratelimit-limit-requests-day'') \<longrightarrow>
      limitRequestsDay (updateFromCerebrasHeaders s headers t) = limitRequestsDay s)
   \<and> (\<not> truthy_str (headers ''x-ratelimit-limit-tokens-minute'') \<longrightarrow>
      limitTokensMinute (updateFromCerebrasHeaders s headers t) = limitTokensMinute s)
   \<and> (\<not> truthy_str (headers ''x-ratelimit-reset-requests-day'') \<longrightarrow>
      resetRequestsDaySeconds (updateFromCerebrasHeaders s headers t) = resetRequestsDaySeconds s)
   \<and> (\<not> truthy_str (headers ''x-ratelimit-reset-tokens-minute'') \<longrightarrow>
      resetTokensMinuteSeconds (updateFromCerebrasHeaders s headers t) = resetTokensMinuteSeconds s)"
  by (simp add: updateFromCerebrasHeaders_fields)

lemma updateFromHeaders_entry:
  "stats tr mid = Some st \<Longrightarrow>
   stats (updateFromHeaders tr mid prov headers t) mid =
     Some (st\<lparr>rateLimitState :=
              (case prov of groq \<Rightarrow> updateFromGroqHeaders (rateLimitState st) headers t
               | cerebras \<Rightarrow> updateFromCerebrasHeaders (rateLimitState st) headers t)\<rparr>)"
  by (cases prov) (simp_all add: updateFromHeaders_def)

lemma updateFromHeaders_frame:
  "history (updateFromHeaders tr mid prov headers t) = history tr"
  "other \<noteq> mid \<Longrightarrow> stats (updateFromHeaders tr mid prov headers t) other = stats tr other"
  by (cases prov; simp add: updateFromHeaders_def split: option.splits)+

lemma checked_groq_entry:
  "stats (checkedTracker demoGroq) ''g'' =
     Some \<lparr>provider = groq, rateLimitState = createGroqState (demoLimits 1 5),
           requestsToday = Num 0, tokensToday = Num 0, dayStart = 0\<rparr>"
  by (simp add: checkedTracker_def canRequest_snd getStats_def new_UsageTracker_def newStats_def
      demoGroq_def Let_def demo_clock)

lemma checked_cerebras_entry:
  "stats (checkedTracker demoCerebras) ''c'' =
     Some \<lparr>provider = cerebras, rateLimitState = createCerebrasState (demoLimits 1 5),
           requestsToday = Num 0, tokensToday = Num 0, dayStart = 0\<rparr>"
  by (simp add: checkedTracker_def canRequest_snd getStats_def new_UsageTracker_def newStats_def
      demoCerebras_def Let_def demo_clock)

lemma parseInt_unlimited: "parseInt ''unlimited'' = NaN"
  by code_simp

text \<open>
  C8, as stated, fails for a malformed value. A header that is present is parsed and
  stored whatever it holds: with \<open>x-ratelimit-remaining-requests: unlimited\<close> the
  remaining request counter, 1 before, becomes \<open>NaN\<close>, for Groq and for Cerebras alike;
  a counter that is \<open>NaN\<close> is not \<open><= 0\<close>, so the request test of the check no longer
  denies.
\<close>

theorem malformed_header_overwrites_counterexample:
  "remainingRequestsDay (stateOf (checkedTracker demoGroq) demoGroq (demoClock 1000)) = Num 1
   \<and> remainingRequestsDay (stateOf
        (updateFromHeaders (checkedTracker demoGroq) ''g'' groq malformedHeaders 1000)
        demoGroq (demoClock 1000)) = NaN
   \<and> remainingRequestsDay (stateOf (checkedTracker demoCerebras) demoCerebras (demoClock 1000)) = Num 1
   \<and> remainingRequestsDay (stateOf
        (updateFromHeaders (checkedTracker demoCerebras) ''c'' cerebras malformedHeaders 1000)
        demoCerebras (demoClock 1000)) = NaN"
proof -
  have g: "remainingRequestsDay (updateFromGroqHeaders s malformedHeaders 1000) = NaN" for s
    by (simp add: updateFromGroqHeaders_fields malformedHeaders_def parseInt_unlimited)
  have c: "remainingRequestsDay (updateFromCerebrasHeaders s malformedHeaders 1000) = NaN" for s
    by (simp add: updateFromCerebrasHeaders_fields malformedHeaders_def parseInt_unlimited)
  have "stateOf (updateFromHeaders (checkedTracker demoGroq) ''g'' groq malformedHeaders 1000)
          demoGroq (demoClock 1000)
        = updateFromGroqHeaders (createGroqState (demoLimits 1 5)) malformedHeaders 1000"
    using stateOf_entry[of "updateFromHeaders (checkedTracker demoGroq) ''g'' groq malformedHeaders 1000" demoGroq]
      updateFromHeaders_entry[OF checked_groq_entry, of groq malformedHeaders 1000]
    by (simp add: demo_ids)
  moreover have "stateOf (updateFromHeaders (checkedTracker demoCerebras) ''c'' cerebras malformedHeaders 1000)
          demoCerebras (demoClock 1000)
        = updateFromCerebrasHeaders (createCerebrasState (demoLimits 1 5)) malformedHeaders 1000"
    using stateOf_entry[of "updateFromHeaders (checkedTracker demoCerebras) ''c'' cerebras malformedHeaders 1000" demoCerebras]
      updateFromHeaders_entry[OF checked_cerebras_entry, of cerebras malformedHeaders 1000]
    by (simp add: demo_ids)
  moreover have "stateOf (checkedTracker demoGroq) demoGroq (demoClock 1000) = createGroqState (demoLimits 1 5)"
    using stateOf_entry[of "checkedTracker demoGroq" demoGroq] by (simp add: demo_ids checked_groq_entry)
  moreover have "stateOf (checkedTracker demoCerebras) demoCerebras (demoClock 1000)
                 = createCerebrasState (demoLimits 1 5)"
    using stateOf_entry[of "checkedTracker demoCerebras" demoCerebras] by (simp add: demo_ids checked_cerebras_entry)
  ultimately show ?thesis
    by (simp add: g c createGroqState_def createCerebrasState_def demoLimits_def)
qed

text \<open>
  C8, amended. \<open>updateFromHeaders\<close> raises nothing (it has no error to return) and, for a
  model that has an entry, keeps the entry with its provider, its daily counters and its
  day; every field of the rate-limit state whose header of the family is absent or empty
  keeps its prior value. The history and the entries of the other models are as before.
\<close>

theorem updateFromHeaders_absent_header_keeps_field:
  "stats tr mid = Some st \<Longrightarrow>
   (\<exists>st'. stats (updateFromHeaders tr mid groq headers t) mid = Some st'
      \<and> provider st' = provider st \<and> requestsToday st' = requestsToday st
      \<and> tokensToday st' = tokensToday st \<and> dayStart st' = dayStart st
      \<and> (\<not> truthy_str (headers ''x-ratelimit-remaining-requests'') \<longrightarrow>
           remainingRequestsDay (rateLimitState st') = remainingRequestsDay (rateLimitState st))
      \<and> (\<not> truthy_str (headers ''x-ratelimit-remaining-tokens'') \<longrightarrow>
           remainingTokensMinute (rateLimitState st') = remainingTokensMinute (rateLimitState st))
      \<and> (\<not> truthy_str (headers ''x-ratelimit-limit-requests'') \<longrightarrow>
           limitRequestsDay (rateLimitState st') = limitRequestsDay (rateLimitState st))
      \<and> (\<not> truthy_str (headers ''x-ratelimit-limit-tokens'') \<longrightarrow>
           limitTokensMinute (rateLimitState st') = limitTokensMinute (rateLimitState st))
      \<and> (\<not> truthy_str (headers ''x-ratelimit-reset-requests'') \<longrightarrow>
           resetRequestsAt (rateLimitState st') = resetRequestsAt (rateLimitState st))
      \<and> (\<not> truthy_str (headers ''x-ratelimit-reset-tokens'') \<longrightarrow>
           resetTokensAt (rateLimitState st') = resetTokensAt (rateLimitState st))
      \<and> (\<not> truthy_str (headers ''retry-after'') \<longrightarrow>
           retryAfter (rateLimitState st') = retryAfter (rateLimitState st)))
   \<and> (\<exists>st'. stats (updateFromHeaders tr mid cerebras headers t) mid = Some st'
      \<and> provider st' = provider st \<and> requestsToday st' = requestsToday st
      \<and> tokensToday st' = tokensToday st \<and> dayStart st' = dayStart st
      \<and> (\<not> truthy_str (headers ''x-ratelimit-remaining-requests-day'') \<longrightarrow>
           remainingRequestsDay (rateLimitState st') = remainingRequestsDay (rateLimitState st))
      \<and> (\<not> truthy_str (headers ''x-ratelimit-remaining-tokens-minute'') \<longrightarrow>
           remainingTokensMinute (rateLimitState st') = remainingTokensMinute (rateLimitState st))
      \<and> (\<not> truthy_str (headers ''x-ratelimit-limit-requests-day'') \<longrightarrow>
           limitRequestsDay (rateLimitState st') = limitRequestsDay (rateLimitState st))
      \<and> (\<not> truthy_str (headers ''x-ratelimit-limit-tokens-minute'') \<longrightarrow>
           limitTokensMinute (rateLimitState st') = limitTokensMinute (rateLimitState st))
      \<and> (\<not> truthy_str (headers ''x-ratelimit-reset-requests-day'') \<longrightarrow>
           resetRequestsDaySeconds (rateLimitState st') = resetRequestsDaySeconds (rateLimitState st))
      \<and> (\<not> truthy_str (headers ''x-ratelimit-reset-tokens-minute'') \<longrightarrow>
           resetTokensMinuteSeconds (rateLimitState st') = resetTokensMinuteSeconds (rateLimitState st)))
   \<and> history (updateFromHeaders tr mid prov headers t) = history tr
   \<and> (\<forall>other. other \<noteq> mid \<longrightarrow> stats (updateFromHeaders tr mid prov headers t) other = stats tr other)"
  using updateFromGroqHeaders_absent[of headers "rateLimitState st" t]
    updateFromCerebrasHeaders_absent[of headers "rateLimitState st" t]
  by (simp add: updateFromHeaders_entry updateFromHeaders_frame)

lemma exhaustedHeaders_absent:
  "\<not> truthy_str (exhaustedHeaders ''x-ratelimit-remaining-tokens'')"
  "\<not> truthy_str (exhaustedHeaders ''x-ratelimit-limit-requests'')"
  "\<not> truthy_str (exhaustedHeaders ''retry-after'')"
  "\<not> truthy_str (exhaustedHeaders ''x-ratelimit-remaining-tokens-minute'')"
  "\<not> truthy_str (exhaustedHeaders ''x-ratelimit-reset-tokens-minute'')"
  by code_simp+

theorem updateFromHeaders_absent_header_keeps_field_witness:
  "stats (checkedTracker demoGroq) ''g'' =
     Some \<lparr>provider = groq, rateLimitState = createGroqState (demoLimits 1 5),
           requestsToday = Num 0, tokensToday = Num 0, dayStart = 0\<rparr>
   \<and> \<not> truthy_str (exhaustedHeaders ''x-ratelimit-remaining-tokens'')
   \<and> \<not> truthy_str (exhaustedHeaders ''x-ratelimit-limit-requests'')
   \<and> \<not> truthy_str (exhaustedHeaders ''retry-after'')
   \<and> \<not> truthy_str (exhaustedHeaders ''x-ratelimit-remaining-tokens-minute'')
   \<and> \<not> truthy_str (exhaustedHeaders ''x-ratelimit-reset-tokens-minute'')
   \<and> (\<exists>st'. stats (updateFromHeaders (checkedTracker demoGroq) ''g'' groq exhaustedHeaders 2000) ''g'' = Some st'
         \<and> dayStart st' = 0
         \<and> remainingTokensMinute (rateLimitState st') = Num 5
         \<and> limitRequestsDay (rateLimitState st') = Num 1
         \<and> retryAfter (rateLimitState st') = None)
   \<and> (\<exists>st'. stats (updateFromHeaders (checkedTracker demoGroq) ''g'' cerebras exhaustedHeaders 2000) ''g'' = Some st'
         \<and> remainingTokensMinute (rateLimitState st') = Num 5
         \<and> resetTokensMinuteSeconds (rateLimitState st') = None)
   \<and> stats (updateFromHeaders (checkedTracker demoGroq) ''g'' groq exhaustedHeaders 2000) ''c''
       = stats (checkedTracker demoGroq) ''c''"
  using updateFromHeaders_absent_header_keeps_field[OF checked_groq_entry, of exhaustedHeaders 2000 groq]
  by (simp add: updateFromHeaders_entry[OF checked_groq_entry] updateFromHeaders_frame
      checked_groq_entry exhaustedHeaders_absent createGroqState_def demoLimits_def)

section \<open>The projections for display (C9)\<close>

lemma getRemainingCapacity_snd: "snd (getRemainingCapacity tr m clk) = snd (getStats tr m clk)"
  by (simp add: getRemainingCapacity_def Let_def split: prod.splits)

lemma getRateLimitInfo_snd: "snd (getRateLimitInfo tr m clk) = snd (getStats tr m clk)"
  by (simp add: getRateLimitInfo_def Let_def split: prod.splits)

lemma getStats_same_day:
  "stats tr (model_id m) = Some st \<Longrightarrow> dayStart st = today clk \<Longrightarrow> snd (getStats tr m clk) = tr"
  by (simp add: getStats_def Let_def map_upd_triv)

lemma getStats_writes:
  "history (snd (getStats tr m clk)) = history tr"
  "other \<noteq> model_id m \<Longrightarrow> stats (snd (getStats tr m clk)) other = stats tr other"
  "stats tr (model_id m) = None \<Longrightarrow> stats (snd (getStats tr m clk)) (model_id m) = Some (newStats m clk)"
  "stats tr (model_id m) = Some st \<Longrightarrow>
     stats (snd (getStats tr m clk)) (model_id m) =
       Some (if dayStart st \<noteq> today clk
             then st\<lparr>requestsToday := Num 0, tokensToday := Num 0, dayStart := today clk\<rparr>
             else st)"
  by (simp_all add: getStats_def newStats_def Let_def)

lemma js_gt_difference: "js_gt (js_sub a b) (Num 0) = js_gt a b"
  by (cases a; cases b) (simp_all add: js_gt_def)

lemma getRateLimitInfo_groq_resetInfo:
  "model_provider m = groq \<Longrightarrow>
   resetInfo (fst (getRateLimitInfo tr m clk)) =
     Str ''Requests reset: '' #
     (case untilReset (js_sub (num (resetRequestsAt (stateOf tr m clk))) (of_now (now clk))) of
        Some w \<Rightarrow> formatDuration w | None \<Rightarrow> [Str ''now'']) @
     Str '', Tokens reset: '' #
     (case untilReset (js_sub (num (resetTokensAt (stateOf tr m clk))) (of_now (now clk))) of
        Some w \<Rightarrow> [N w, Str ''s''] | None \<Rightarrow> [Str ''now''])"
  by (simp add: getRateLimitInfo_def stateOf_def untilReset_def Let_def split_beta js_gt_difference)

text \<open>For Cerebras the reset text of \<open>getRateLimitInfo\<close> is the same at every time.\<close>

lemma getRateLimitInfo_cerebras_ignores_clock:
  assumes "model_provider m = cerebras"
  shows "resetInfo (fst (getRateLimitInfo tr m clk)) = resetInfo (fst (getRateLimitInfo tr m clk'))"
proof -
  have "resetInfo (fst (getRateLimitInfo tr m c)) =
          Str ''Requests reset: '' #
          formatDuration (js_ceil (num (resetRequestsDaySeconds (stateOf tr m c)))) @
          [Str '', Tokens reset: '', N (js_ceil (num (resetTokensMinuteSeconds (stateOf tr m c)))), Str ''s'']"
    for c
    using assms by (simp add: getRateLimitInfo_def stateOf_def Let_def split_beta)
  then show ?thesis
    using stateOf_clock[of tr m clk clk'] by simp
qed

text \<open>
  C9, as stated, fails in both halves. Both projections go through \<open>getStats\<close>, which
  writes: on a new tracker either call leaves an entry behind, which \<open>getUsageStats\<close>
  shows, and on the day after a recorded request the call sets the daily request counter,
  1 before, back to 0. And for the Cerebras model whose response at time 1000 reported a
  reset in 60 seconds, \<open>getRateLimitInfo\<close> reports ``1m 0s'' at time 1000 and again at time
  62000, when that reset has passed: the time of the last update, not of the call.
\<close>

theorem projections_write_counterexample:
  "getUsageStats new_UsageTracker ''g'' = None
   \<and> getUsageStats (snd (getRemainingCapacity new_UsageTracker demoGroq (demoClock 1000))) ''g'' \<noteq> None
   \<and> getUsageStats (snd (getRateLimitInfo new_UsageTracker demoGroq (demoClock 1000))) ''g'' \<noteq> None
   \<and> map_option requestsToday (getUsageStats (exhaustedTracker demoGroq) ''g'') = Some (Num 1)
   \<and> map_option requestsToday
        (getUsageStats (snd (getRateLimitInfo (exhaustedTracker demoGroq) demoGroq nextDay)) ''g'') = Some (Num 0)
   \<and> resetInfo (fst (getRateLimitInfo (exhaustedTracker demoCerebras) demoCerebras (demoClock 1000)))
       = [Str ''Requests reset: '', N (Num 1), Str ''m '', N (Num 0), Str ''s'',
          Str '', Tokens reset: '', N (Num 0), Str ''s'']
   \<and> resetInfo (fst (getRateLimitInfo (exhaustedTracker demoCerebras) demoCerebras (demoClock 62000)))
       = [Str ''Requests reset: '', N (Num 1), Str ''m '', N (Num 0), Str ''s'',
          Str '', Tokens reset: '', N (Num 0), Str ''s'']"
proof -
  have w: "getUsageStats new_UsageTracker ''g'' = None
   \<and> getUsageStats (snd (getRemainingCapacity new_UsageTracker demoGroq (demoClock 1000))) ''g'' \<noteq> None
   \<and> getUsageStats (snd (getRateLimitInfo new_UsageTracker demoGroq (demoClock 1000))) ''g'' \<noteq> None
   \<and> map_option requestsToday (getUsageStats (exhaustedTracker demoGroq) ''g'') = Some (Num 1)
   \<and> map_option requestsToday
        (getUsageStats (snd (getRateLimitInfo (exhaustedTracker demoGroq) demoGroq nextDay)) ''g'') = Some (Num 0)"
    by (simp add: getUsageStats_def getRemainingCapacity_snd getRateLimitInfo_snd getStats_def Let_def
        new_UsageTracker_def demo_ids exhausted_groq_entry nextDay_def)
  have t1: "resetInfo (fst (getRateLimitInfo (exhaustedTracker demoCerebras) demoCerebras (demoClock 1000)))
       = [Str ''Requests reset: '', N (Num 1), Str ''m '', N (Num 0), Str ''s'',
          Str '', Tokens reset: '', N (Num 0), Str ''s'']"
    by code_simp
  have t2: "resetInfo (fst (getRateLimitInfo (exhaustedTracker demoCerebras) demoCerebras (demoClock 62000)))
       = [Str ''Requests reset: '', N (Num 1), Str ''m '', N (Num 0), Str ''s'',
          Str '', Tokens reset: '', N (Num 0), Str ''s'']"
    by code_simp
  show ?thesis using w t1 t2 by simp
qed

text \<open>
  C9, amended. The two projections write to the tracker, and only as follows: for a model
  without an entry they make the default entry; for an entry of an earlier day they set
  the two daily counters to 0 and the day to the current one; an entry of the current day,
  and then the whole tracker, is left as it was. In every case the provider and the
  rate-limit state of the entry, the entries of the other models and the history are as
  before. For a Groq model the time until reset in \<open>getRateLimitInfo\<close> is computed from
  the stored reset instant (0 for a model without an entry) less the clock at the call.
\<close>

theorem projections_effects:
  "tr' = snd (getRemainingCapacity tr m clk) \<or> tr' = snd (getRateLimitInfo tr m clk) \<Longrightarrow>
   history tr' = history tr
   \<and> (other \<noteq> model_id m \<longrightarrow> stats tr' other = stats tr other)
   \<and> (stats tr (model_id m) = None \<longrightarrow> stats tr' (model_id m) = Some (newStats m clk))
   \<and> (stats tr (model_id m) = Some st \<longrightarrow>
        stats tr' (model_id m) =
          Some (if dayStart st \<noteq> today clk
                then st\<lparr>requestsToday := Num 0, tokensToday := Num 0, dayStart := today clk\<rparr>
                else st)
        \<and> map_option rateLimitState (stats tr' (model_id m)) = Some (rateLimitState st)
        \<and> map_option provider (stats tr' (model_id m)) = Some (provider st)
        \<and> (dayStart st = today clk \<longrightarrow> tr' = tr))
   \<and> (model_provider m = groq \<and> stats tr (model_id m) = Some st \<longrightarrow>
        resetInfo (fst (getRateLimitInfo tr m clk)) =
          Str ''Requests reset: '' #
          (case untilReset (js_sub (num (resetRequestsAt (rateLimitState st))) (of_now (now clk))) of
             Some w \<Rightarrow> formatDuration w | None \<Rightarrow> [Str ''now'']) @
          Str '', Tokens reset: '' #
          (case untilReset (js_sub (num (resetTokensAt (rateLimitState st))) (of_now (now clk))) of
             Some w \<Rightarrow> [N w, Str ''s''] | None \<Rightarrow> [Str ''now'']))
   \<and> (model_provider m = groq \<and> stats tr (model_id m) = None \<longrightarrow>
        resetInfo (fst (getRateLimitInfo tr m clk)) =
          Str ''Requests reset: '' #
          (case untilReset (js_sub (Num 0) (of_now (now clk))) of
             Some w \<Rightarrow> formatDuration w | None \<Rightarrow> [Str ''now'']) @
          Str '', Tokens reset: '' #
          (case untilReset (js_sub (Num 0) (of_now (now clk))) of
             Some w \<Rightarrow> [N w, Str ''s''] | None \<Rightarrow> [Str ''now'']))"
proof -
  assume "tr' = snd (getRemainingCapacity tr m clk) \<or> tr' = snd (getRateLimitInfo tr m clk)"
  then have tr': "tr' = snd (getStats tr m clk)"
    by (auto simp: getRemainingCapacity_snd getRateLimitInfo_snd)
  have same: "tr' = tr" if "stats tr (model_id m) = Some st" "dayStart st = today clk"
    unfolding tr' using that by (rule getStats_same_day)
  have info: "resetInfo (fst (getRateLimitInfo tr m clk)) =
          Str ''Requests reset: '' #
          (case untilReset (js_sub (num (resetRequestsAt (rateLimitState st))) (of_now (now clk))) of
             Some w \<Rightarrow> formatDuration w | None \<Rightarrow> [Str ''now'']) @
          Str '', Tokens reset: '' #
          (case untilReset (js_sub (num (resetTokensAt (rateLimitState st))) (of_now (now clk))) of
             Some w \<Rightarrow> [N w, Str ''s''] | None \<Rightarrow> [Str ''now''])"
    if "model_provider m = groq" "stats tr (model_id m) = Some st"
    using getRateLimitInfo_groq_resetInfo[OF that(1), of tr clk] stateOf_entry[OF that(2), of clk]
    by simp
  have fresh: "resetInfo (fst (getRateLimitInfo tr m clk)) =
          Str ''Requests reset: '' #
          (case untilReset (js_sub (Num 0) (of_now (now clk))) of
             Some w \<Rightarrow> formatDuration w | None \<Rightarrow> [Str ''now'']) @
          Str '', Tokens reset: '' #
          (case untilReset (js_sub (Num 0) (of_now (now clk))) of
             Some w \<Rightarrow> [N w, Str ''s''] | None \<Rightarrow> [Str ''now''])"
    if "model_provider m = groq" "stats tr (model_id m) = None"
  proof -
    have "stateOf tr m clk = createGroqState (limits m)"
      using that by (simp add: stateOf_def getStats_def newStats_def Let_def)
    then show ?thesis
      using getRateLimitInfo_groq_resetInfo[OF that(1), of tr clk] by (simp add: createGroqState_def)
  qed
  show ?thesis
    using same info fresh by (simp add: tr' getStats_writes)
qed

theorem projections_effects_witness:
  "stats (exhaustedTracker demoGroq) (model_id demoGroq) =
     Some \<lparr>provider = groq,
       rateLimitState =
         \<lparr>remainingRequestsDay = Num 0, remainingTokensMinute = Num 5,
          limitRequestsDay = Num 1, limitTokensMinute = Num 5,
          resetRequestsAt = Some (Num 61000), resetTokensAt = Some (Num 0), retryAfter = None,
          resetRequestsDaySeconds = None,
          resetTokensMinuteSeconds = None, lastUpdated = Num 1000\<rparr>,
       requestsToday = Num 1, tokensToday = Num 0, dayStart = 0\<rparr>
   \<and> today (demoClock 2500) = 0
   \<and> snd (getRemainingCapacity (exhaustedTracker demoGroq) demoGroq (demoClock 2500)) = exhaustedTracker demoGroq
   \<and> snd (getRateLimitInfo (exhaustedTracker demoGroq) demoGroq (demoClock 2500)) = exhaustedTracker demoGroq
   \<and> today nextDay \<noteq> 0
   \<and> stats (snd (getRateLimitInfo (exhaustedTracker demoGroq) demoGroq nextDay)) ''g'' =
       Some \<lparr>provider = groq,
         rateLimitState =
           \<lparr>remainingRequestsDay = Num 0, remainingTokensMinute = Num 5,
            limitRequestsDay = Num 1, limitTokensMinute = Num 5,
            resetRequestsAt = Some (Num 61000), resetTokensAt = Some (Num 0), retryAfter = None,
            resetRequestsDaySeconds = None,
            resetTokensMinuteSeconds = None, lastUpdated = Num 1000\<rparr>,
         requestsToday = Num 0, tokensToday = Num 0, dayStart = 86400000\<rparr>
   \<and> ''c'' \<noteq> model_id demoGroq
   \<and> stats (snd (getRateLimitInfo (exhaustedTracker demoGroq) demoGroq nextDay)) ''c''
       = stats (exhaustedTracker demoGroq) ''c''
   \<and> stats new_UsageTracker (model_id demoCerebras) = None
   \<and> stats (snd (getRemainingCapacity new_UsageTracker demoCerebras (demoClock 1000))) ''c''
       = Some (newStats demoCerebras (demoClock 1000))
   \<and> model_provider demoGroq = groq
   \<and> resetInfo (fst (getRateLimitInfo (exhaustedTracker demoGroq) demoGroq (demoClock 2500)))
       = [Str ''Requests reset: '', N (Num 59), Str ''s'', Str '', Tokens reset: '', Str ''now'']"
proof -
  have w: "untilReset (Num 58500) = Some (Num 59)" "untilReset (Num (- 2500)) = None"
    by code_simp+
  have f: "formatDuration (Num 59) = [N (Num 59), Str ''s'']"
    by (simp add: formatDuration_def)
  have n: "today nextDay = 86400000" by (simp add: nextDay_def)
  show ?thesis
    using projections_effects[of "snd (getRemainingCapacity (exhaustedTracker demoGroq) demoGroq (demoClock 2500))"
        "exhaustedTracker demoGroq" demoGroq "demoClock 2500" "''c''"
        "the (stats (exhaustedTracker demoGroq) ''g'')"]
      projections_effects[of "snd (getRateLimitInfo (exhaustedTracker demoGroq) demoGroq (demoClock 2500))"
        "exhaustedTracker demoGroq" demoGroq "demoClock 2500" "''c''"
        "the (stats (exhaustedTracker demoGroq) ''g'')"]
      projections_effects[of "snd (getRateLimitInfo (exhaustedTracker demoGroq) demoGroq nextDay)"
        "exhaustedTracker demoGroq" demoGroq nextDay "''c''"
        "the (stats (exhaustedTracker demoGroq) ''g'')"]
      projections_effects[of "snd (getRemainingCapacity new_UsageTracker demoCerebras (demoClock 1000))"
        new_UsageTracker demoCerebras "demoClock 1000" "''g''" "newStats demoCerebras (demoClock 1000)"]
    by (simp add: w f n demo_ids exhausted_groq_entry demo_clock new_UsageTracker_def)
qed

section \<open>Reconciliation for a model without an entry (C10)\<close>

text \<open>
  C10. When the model identifier has no usage-stats entry, \<open>updateFromHeaders\<close> returns
  the tracker as it was: no entry is made, nothing is raised (the function has no error
  to return), and the header values are not applied.
\<close>

theorem updateFromHeaders_no_entry:
  "stats tr mid = None \<Longrightarrow> updateFromHeaders tr mid prov headers t = tr"
  by (simp add: updateFromHeaders_def)

theorem updateFromHeaders_no_entry_witness:
  "stats new_UsageTracker ''g'' = None
   \<and> updateFromHeaders new_UsageTracker ''g'' groq exhaustedHeaders 1000 = new_UsageTracker
   \<and> getUsageStats (updateFromHeaders new_UsageTracker ''g'' groq exhaustedHeaders 1000) ''g'' = None"
  using updateFromHeaders_no_entry[of new_UsageTracker "''g''" groq exhaustedHeaders 1000]
  by (simp add: new_UsageTracker_def getUsageStats_def)

end
